theory Spec2Isabelle
  imports Complex_Main "HOL-Library.AList"
begin

section \<open>Data model: cells, rows and data frames\<close>

text \<open>
  The two scripts (\<^verbatim>\<open>Preswald-Assessment/hello.py\<close>, called the first variant, and
  \<^verbatim>\<open>preswald-assessment-final/hello.py\<close>, called the final variant) work on pandas
  data frames.  A cell is missing (\<^verbatim>\<open>NaN\<close>/\<^verbatim>\<open>pd.NA\<close>), a number or a string.
  Numbers are idealised as reals.  A row is an association list from column names to
  cells, a data frame its column names and its rows in order.
\<close>

datatype cell = NA | Num real | Str string

type_synonym row = "(string \<times> cell) list"

record dataframe =
  columns :: "string list"
  rows :: "row list"

datatype error = KeyError string | TypeError string | DataUnavailable string | Raised string

text \<open>The cell of a row under a column; a row of a frame has every column of the frame.\<close>

definition cellv :: "row \<Rightarrow> string \<Rightarrow> cell" where
  "cellv r c = (case map_of r c of Some v \<Rightarrow> v | None \<Rightarrow> NA)"

text \<open>\<^verbatim>\<open>df[c]\<close>: the column as a list of cells, \<^verbatim>\<open>KeyError\<close> when the frame has no such column.\<close>

definition getcol :: "dataframe \<Rightarrow> string \<Rightarrow> error + cell list" where
  "getcol df c =
     (if c \<in> set (columns df) then Inr (map (\<lambda>r. cellv r c) (rows df))
      else Inl (KeyError c))"

text \<open>\<^verbatim>\<open>df[mask]\<close>: the rows whose mask entry is true, in order.\<close>

definition select_rows :: "dataframe \<Rightarrow> bool list \<Rightarrow> dataframe" where
  "select_rows df keep = df\<lparr>rows := map fst (filter snd (zip (rows df) keep))\<rparr>"

section \<open>Presentation events and errors\<close>

text \<open>
  The dashboard calls (\<^verbatim>\<open>text\<close>, \<^verbatim>\<open>table\<close>, \<^verbatim>\<open>alert\<close>, \<^verbatim>\<open>separator\<close>,
  \<^verbatim>\<open>sidebar\<close>) are write-only: a stage is modelled with the list of events it emits.
  \<open>AlertDefault\<close> is an alert whose level argument is left out.
  The content of a table is the frame shown, or the symbolic result of a library
  computation on a frame (\<^verbatim>\<open>dtypes\<close>, \<^verbatim>\<open>describe\<close>), or a list of counts.
\<close>

datatype level = Info | Success | Warning | Error

datatype content =
    Frame dataframe
  | Dtypes dataframe
  | Described dataframe
  | Counts string "(cell \<times> nat) list"
  | MissingCounts "(string \<times> nat) list"

datatype event =
    Text string
  | Table string content
  | Alert level string
  | AlertDefault string
  | Separator
  | Sidebar

text \<open>\<^verbatim>\<open>str(e)\<close> in the handlers: the message the exception carries.\<close>

fun str_e :: "error \<Rightarrow> string" where
  "str_e (KeyError s) = s"
| "str_e (TypeError s) = s"
| "str_e (DataUnavailable s) = s"
| "str_e (Raised s) = s"

section \<open>Loader\<close>

text \<open>
  \<^verbatim>\<open>pd.to_numeric(series, errors="coerce")\<close> on one cell.  The parser of numeric text is
  the library's and is a parameter: a string that does not parse becomes missing.
\<close>

definition to_numeric :: "(string \<Rightarrow> real option) \<Rightarrow> cell \<Rightarrow> cell" where
  "to_numeric parse v =
     (case v of NA \<Rightarrow> NA | Num x \<Rightarrow> Num x
      | Str s \<Rightarrow> (case parse s of Some x \<Rightarrow> Num x | None \<Rightarrow> NA))"

text \<open>
  \<^verbatim>\<open>df[c] = f(df[c'])\<close> for a cell-wise \<open>f\<close>: reading \<open>c'\<close> raises \<^verbatim>\<open>KeyError\<close> when it
  is absent; the column \<open>c\<close> is overwritten, or appended when it is new.
\<close>

definition assign_mapped ::
  "dataframe \<Rightarrow> string \<Rightarrow> (cell \<Rightarrow> cell) \<Rightarrow> string \<Rightarrow> error + dataframe" where
  "assign_mapped df c f c' =
     (if c' \<in> set (columns df)
      then Inr \<lparr>columns = (if c \<in> set (columns df) then columns df else columns df @ [c]),
                rows = map (\<lambda>r. AList.update c (f (cellv r c')) r) (rows df)\<rparr>
      else Inl (KeyError c'))"

text \<open>The loop \<^verbatim>\<open>for col in numeric_cols: df[col] = pd.to_numeric(df[col], errors="coerce")\<close>.\<close>

fun coerce_cols :: "(string \<Rightarrow> real option) \<Rightarrow> string list \<Rightarrow> dataframe \<Rightarrow> error + dataframe" where
  "coerce_cols parse [] df = Inr df"
| "coerce_cols parse (c # cs) df =
     (case assign_mapped df c (to_numeric parse) c of Inl e \<Rightarrow> Inl e
      | Inr d \<Rightarrow> coerce_cols parse cs d)"

text \<open>\<^verbatim>\<open>df.dropna(subset=cs)\<close>: \<^verbatim>\<open>KeyError\<close> for an absent column, else the rows complete on \<open>cs\<close>.\<close>

definition dropna_subset :: "string list \<Rightarrow> dataframe \<Rightarrow> error + dataframe" where
  "dropna_subset cs df =
     (case filter (\<lambda>c. c \<notin> set (columns df)) cs of
        [] \<Rightarrow> Inr (df\<lparr>rows := filter (\<lambda>r. list_all (\<lambda>c. cellv r c \<noteq> NA) cs) (rows df)\<rparr>)
      | c # _ \<Rightarrow> Inl (KeyError c))"

definition numeric_cols :: "string list" where
  "numeric_cols =
     [''calories'', ''protein'', ''fat'', ''sodium'', ''fiber'',
      ''carbo'', ''sugars'', ''potass'', ''vitamins'', ''shelf'',
      ''weight'', ''cups'', ''rating'']"

definition mfr_map :: "(string \<times> string) list" where
  "mfr_map =
     [(''A'', ''American Home Food Products''),
      (''G'', ''General Mills''),
      (''K'', ''Kelloggs''),
      (''N'', ''Nabisco''),
      (''P'', ''Post''),
      (''Q'', ''Quaker Oats''),
      (''R'', ''Ralston Purina'')]"

definition type_map :: "(string \<times> string) list" where
  "type_map = [(''C'', ''Cold''), (''H'', ''Hot'')]"

text \<open>\<^verbatim>\<open>series.map(dict)\<close> on one cell: a value that is not a key becomes missing.\<close>

definition series_map :: "(string \<times> string) list \<Rightarrow> cell \<Rightarrow> cell" where
  "series_map tbl v =
     (case v of Str s \<Rightarrow> (case map_of tbl s of Some t \<Rightarrow> Str t | None \<Rightarrow> NA)
      | _ \<Rightarrow> NA)"

text \<open>The two derived columns, common to both variants.\<close>

definition add_full_names :: "dataframe \<Rightarrow> error + dataframe" where
  "add_full_names df =
     (case assign_mapped df ''manufacturer_full'' (series_map mfr_map) ''mfr'' of
        Inl e \<Rightarrow> Inl e
      | Inr d \<Rightarrow> assign_mapped d ''type_full'' (series_map type_map) ''type'')"

text \<open>
  Final variant, \<^verbatim>\<open>load_data\<close>.  The argument \<open>src\<close> is what
  \<^verbatim>\<open>get_df("sample_csv")\<close> gives: the source table, or the exception it raises.
  Nothing is caught.
\<close>

definition load_data_final :: "(string \<Rightarrow> real option) \<Rightarrow> error + dataframe \<Rightarrow> error + dataframe" where
  "load_data_final parse src =
     (case src of Inl e \<Rightarrow> Inl e
      | Inr df \<Rightarrow>
         (case coerce_cols parse numeric_cols df of Inl e \<Rightarrow> Inl e
          | Inr d1 \<Rightarrow>
             (case dropna_subset numeric_cols d1 of Inl e \<Rightarrow> Inl e
              | Inr d2 \<Rightarrow> add_full_names d2)))"

text \<open>
  First variant, \<^verbatim>\<open>load_data\<close>: only \<^verbatim>\<open>carbo\<close>, \<^verbatim>\<open>sugars\<close> and \<^verbatim>\<open>potass\<close> are coerced
  and checked.  Every exception is caught, reported as an error alert and replaced
  by the empty frame \<^verbatim>\<open>pd.DataFrame()\<close>.
\<close>

definition load_body_v1 :: "(string \<Rightarrow> real option) \<Rightarrow> error + dataframe \<Rightarrow> error + dataframe" where
  "load_body_v1 parse src =
     (case src of Inl e \<Rightarrow> Inl e
      | Inr df \<Rightarrow>
         (case coerce_cols parse [''carbo'', ''sugars'', ''potass''] df of Inl e \<Rightarrow> Inl e
          | Inr d1 \<Rightarrow>
             (case dropna_subset [''carbo'', ''sugars'', ''potass''] d1 of Inl e \<Rightarrow> Inl e
              | Inr d2 \<Rightarrow> add_full_names d2)))"

definition load_data_v1 :: "(string \<Rightarrow> real option) \<Rightarrow> error + dataframe \<Rightarrow> event list \<times> dataframe" where
  "load_data_v1 parse src =
     (case load_body_v1 parse src of
        Inl e \<Rightarrow> ([Alert Error (''Error loading data: '' @ str_e e)], \<lparr>columns = [], rows = []\<rparr>)
      | Inr df \<Rightarrow> ([], df))"

section \<open>Analyzer: cleaning\<close>

text \<open>
  \<^verbatim>\<open>series > 0\<close> on one cell: a missing cell compares false, a string cell raises
  \<^verbatim>\<open>TypeError\<close> (comparison of \<^verbatim>\<open>str\<close> and \<^verbatim>\<open>int\<close>).
\<close>

fun gt0 :: "cell \<Rightarrow> error + bool" where
  "gt0 NA = Inr False"
| "gt0 (Num x) = Inr (0 < x)"
| "gt0 (Str s) = Inl (TypeError s)"

text \<open>A comparison applied to a whole column: the first cell that raises aborts it.\<close>

fun compare_all :: "(cell \<Rightarrow> error + bool) \<Rightarrow> cell list \<Rightarrow> error + bool list" where
  "compare_all p [] = Inr []"
| "compare_all p (v # vs) =
     (case p v of Inl e \<Rightarrow> Inl e
      | Inr b \<Rightarrow> (case compare_all p vs of Inl e \<Rightarrow> Inl e | Inr bs \<Rightarrow> Inr (b # bs)))"

text \<open>\<^verbatim>\<open>df[c] > 0\<close>\<close>

definition mask_gt0 :: "dataframe \<Rightarrow> string \<Rightarrow> error + bool list" where
  "mask_gt0 df c = (case getcol df c of Inl e \<Rightarrow> Inl e | Inr vs \<Rightarrow> compare_all gt0 vs)"

text \<open>\<^verbatim>\<open>df.replace(-1, pd.NA, inplace=True)\<close>: every cell equal to -1, in any column.\<close>

definition replace_cell :: "cell \<Rightarrow> cell" where
  "replace_cell v = (if v = Num (- 1) then NA else v)"

definition replace_m1 :: "dataframe \<Rightarrow> dataframe" where
  "replace_m1 df = df\<lparr>rows := map (map (\<lambda>(k, v). (k, replace_cell v))) (rows df)\<rparr>"

text \<open>
  First variant, lines 52 to 54: two filters in sequence, then the replacement.
\<close>

definition clean_v1 :: "dataframe \<Rightarrow> error + dataframe" where
  "clean_v1 df =
     (case mask_gt0 df ''calories'' of Inl e \<Rightarrow> Inl e
      | Inr m1 \<Rightarrow>
         (let df1 = select_rows df m1 in
          case mask_gt0 df1 ''rating'' of Inl e \<Rightarrow> Inl e
          | Inr m2 \<Rightarrow> Inr (replace_m1 (select_rows df1 m2))))"

text \<open>
  Final variant, lines 54 and 55: both masks are computed on the whole frame and
  combined with \<^verbatim>\<open>&\<close>, then the replacement.
\<close>

definition clean_final :: "dataframe \<Rightarrow> error + dataframe" where
  "clean_final df =
     (case mask_gt0 df ''calories'' of Inl e \<Rightarrow> Inl e
      | Inr m1 \<Rightarrow>
         (case mask_gt0 df ''rating'' of Inl e \<Rightarrow> Inl e
          | Inr m2 \<Rightarrow> Inr (replace_m1 (select_rows df (map2 (\<and>) m1 m2)))))"

section \<open>Formatting\<close>

text \<open>\<^verbatim>\<open>str\<close> of a natural number and of an integer, as the f-strings print them.\<close>

fun str_nat :: "nat \<Rightarrow> string" where
  "str_nat n =
     (if n < 10 then [''0123456789'' ! n]
      else str_nat (n div 10) @ [''0123456789'' ! (n mod 10)])"

declare str_nat.simps [simp del]

definition str_int :: "int \<Rightarrow> string" where
  "str_int i = (if i < 0 then ''-'' @ str_nat (nat (- i)) else str_nat (nat i))"

text \<open>\<^verbatim>\<open>", ".join(xs)\<close>\<close>

fun join_comma :: "string list \<Rightarrow> string" where
  "join_comma [] = []"
| "join_comma [x] = x"
| "join_comma (x # y # ys) = x @ '', '' @ join_comma (y # ys)"

text \<open>The emoji of the messages, as their UTF-8 bytes.\<close>

definition emoji_magnifier :: string where
  "emoji_magnifier = [CHR 0xF0, CHR 0x9F, CHR 0x94, CHR 0x8D]"

definition emoji_plate :: string where
  "emoji_plate = [CHR 0xF0, CHR 0x9F, CHR 0x8D, CHR 0xBD, CHR 0xEF, CHR 0xB8, CHR 0x8F]"

definition emoji_confused :: string where
  "emoji_confused = [CHR 0xF0, CHR 0x9F, CHR 0x98, CHR 0x95]"

definition emoji_bowl :: string where
  "emoji_bowl = [CHR 0xF0, CHR 0x9F, CHR 0xA5, CHR 0xA3]"

section \<open>Analyzer: the environment of a run\<close>

text \<open>
  What the analyzer does not compute itself is given by an environment: whether the
  library and dashboard calls of a step raise (\<open>fails\<close>), what the external query
  executor returns for a query text (\<open>query\<close>, \<open>None\<close> for Python's \<^verbatim>\<open>None\<close>), how a
  cell prints in an f-string (\<open>fmt\<close>) and whether pandas gives a column the dtype
  \<^verbatim>\<open>object\<close> (\<open>is_object\<close>).  The value of the slider is an argument of the analyzer.
\<close>

datatype step =
  Intro | ColumnTypes | Preview | Summary | ValueCounts | MissingValues | RatingFilter

record env =
  fails :: "step \<Rightarrow> error option"
  query :: "string \<Rightarrow> dataframe option"
  fmt :: "cell \<Rightarrow> string"
  is_object :: "cell list \<Rightarrow> bool"

text \<open>
  A step gives the events it emitted and the exception it raised, if any.  Steps run
  in order; the first exception ends the run.
\<close>

type_synonym outcome = "event list \<times> error option"

fun run_steps :: "outcome list \<Rightarrow> outcome" where
  "run_steps [] = ([], None)"
| "run_steps ((evs, Some e) # rest) = (evs, Some e)"
| "run_steps ((evs, None) # rest) = (evs @ fst (run_steps rest), snd (run_steps rest))"

text \<open>
  A step without a handler: its heading is emitted, then its calls either raise or
  emit the body.
\<close>

definition unguarded :: "env \<Rightarrow> step \<Rightarrow> event list \<Rightarrow> outcome \<Rightarrow> outcome" where
  "unguarded ev s heading body =
     (case fails ev s of
        Some e \<Rightarrow> (heading, Some e)
      | None \<Rightarrow> (heading @ fst body, snd body))"

text \<open>\<^verbatim>\<open>df.empty\<close>: no rows or no columns.\<close>

definition df_empty :: "dataframe \<Rightarrow> bool" where
  "df_empty df \<longleftrightarrow> rows df = [] \<or> columns df = []"

section \<open>Analyzer: categorical value counts and missing values\<close>

text \<open>
  \<^verbatim>\<open>series.value_counts()\<close>: the missing cells are left out, each distinct value is
  counted, and the entries are ordered by descending count (entries of equal count stay
  in the order in which the values first appear).
\<close>

definition distinct_values :: "cell list \<Rightarrow> cell list" where
  "distinct_values vs = rev (remdups (rev vs))"

definition sort_desc :: "(cell \<times> nat) list \<Rightarrow> (cell \<times> nat) list" where
  "sort_desc xs = rev (sort_key snd (rev xs))"

definition value_counts :: "cell list \<Rightarrow> (cell \<times> nat) list" where
  "value_counts vs =
     (let present = filter (\<lambda>v. v \<noteq> NA) vs
      in sort_desc (map (\<lambda>k. (k, count_list present k)) (distinct_values present)))"

text \<open>\<^verbatim>\<open>df.select_dtypes(include="object").columns\<close>\<close>

definition categorical_cols :: "env \<Rightarrow> dataframe \<Rightarrow> string list" where
  "categorical_cols ev df =
     filter (\<lambda>c. is_object ev (map (\<lambda>r. cellv r c) (rows df))) (columns df)"

definition counts_title :: "string \<Rightarrow> string" where
  "counts_title col = ''Top 10 '' @ [CHR 0x27] @ col @ [CHR 0x27] @ '' Values''"

text \<open>First variant, lines 87 to 91: the whole count table is shown.\<close>

definition value_count_tables_v1 :: "env \<Rightarrow> dataframe \<Rightarrow> event list" where
  "value_count_tables_v1 ev df =
     map (\<lambda>col. Table (counts_title col)
                   (Counts col (value_counts (map (\<lambda>r. cellv r col) (rows df)))))
         (categorical_cols ev df)"

text \<open>Final variant, lines 123 to 127: \<^verbatim>\<open>counts.head(10)\<close> is shown.\<close>

definition value_count_tables_final :: "env \<Rightarrow> dataframe \<Rightarrow> event list" where
  "value_count_tables_final ev df =
     map (\<lambda>col. Table (counts_title col)
                   (Counts col (take 10 (value_counts (map (\<lambda>r. cellv r col) (rows df))))))
         (categorical_cols ev df)"

text \<open>\<^verbatim>\<open>df.isnull().sum()\<close> and the summary of the columns with a missing cell.\<close>

definition missing_counts :: "dataframe \<Rightarrow> (string \<times> nat) list" where
  "missing_counts df =
     map (\<lambda>c. (c, length (filter (\<lambda>r. cellv r c = NA) (rows df)))) (columns df)"

definition missing_summary :: "string \<Rightarrow> dataframe \<Rightarrow> event" where
  "missing_summary none_text df =
     (if 0 < sum_list (map snd (missing_counts df))
      then Table ''Missing Values Summary''
             (MissingCounts (filter (\<lambda>p. 0 < snd p) (missing_counts df)))
      else Text none_text)"

section \<open>Analyzer: the rating threshold\<close>

text \<open>\<^verbatim>\<open>series >= rating_cutoff\<close> on one cell.\<close>

fun ge_cutoff :: "int \<Rightarrow> cell \<Rightarrow> error + bool" where
  "ge_cutoff t NA = Inr False"
| "ge_cutoff t (Num x) = Inr (real_of_int t \<le> x)"
| "ge_cutoff t (Str s) = Inl (TypeError s)"

text \<open>\<^verbatim>\<open>df[[c1, c2, c3]]\<close>: \<^verbatim>\<open>KeyError\<close> for an absent column.\<close>

definition project :: "string list \<Rightarrow> dataframe \<Rightarrow> error + dataframe" where
  "project cs df =
     (case filter (\<lambda>c. c \<notin> set (columns df)) cs of
        [] \<Rightarrow> Inr \<lparr>columns = cs, rows = map (\<lambda>r. map (\<lambda>c. (c, cellv r c)) cs) (rows df)\<rparr>
      | c # _ \<Rightarrow> Inl (KeyError c))"

definition view_cols :: "string list" where
  "view_cols = [''name'', ''manufacturer_full'', ''rating'']"

text \<open>
  Final variant, line 153:
  \<^verbatim>\<open>filtered = df[df["rating"] >= rating_cutoff][["name", "manufacturer_full", "rating"]]\<close>
\<close>

definition threshold_view_final :: "dataframe \<Rightarrow> int \<Rightarrow> error + dataframe" where
  "threshold_view_final df t =
     (case getcol df ''rating'' of Inl e \<Rightarrow> Inl e
      | Inr vs \<Rightarrow>
         (case compare_all (ge_cutoff t) vs of Inl e \<Rightarrow> Inl e
          | Inr m \<Rightarrow> project view_cols (select_rows df m)))"

text \<open>Final variant, lines 156 to 159: the alert for \<open>n\<close> matching rows.\<close>

definition threshold_alert_final :: "nat \<Rightarrow> int \<Rightarrow> event" where
  "threshold_alert_final n t =
     (if n = 1
      then Alert Success (emoji_bowl @ '' There is '' @ str_nat n @ '' cereal rated above ''
                            @ str_int t @ ''.'')
      else Alert Success (emoji_bowl @ '' There are '' @ str_nat n @ '' cereals rated above ''
                            @ str_int t @ ''.''))"

definition rated_title :: "int \<Rightarrow> string" where
  "rated_title t = ''Cereals Rated '' @ str_int t @ ''+''"

definition rating_filter_final :: "env \<Rightarrow> dataframe \<Rightarrow> int \<Rightarrow> outcome" where
  "rating_filter_final ev df t =
     unguarded ev RatingFilter
       [Text ''## An Interactive Insight: Explore Cereals by Rating Threshold'']
       (case threshold_view_final df t of
          Inl e \<Rightarrow> ([], Some e)
        | Inr filtered \<Rightarrow>
            ([threshold_alert_final (length (rows filtered)) t,
              Table (rated_title t) (Frame filtered),
              Separator], None))"

text \<open>
  First variant, lines 117 to 130.  The view is not computed from the analyzed frame:
  the query text is sent to the external executor, against the source table.
\<close>

definition query_text :: "int \<Rightarrow> string" where
  "query_text t =
     ''SELECT name, manufacturer_full, rating '' @
     ''FROM sample_csv '' @
     ''WHERE rating >= '' @ str_int t @ '' '' @
     ''ORDER BY rating DESC''"

definition threshold_signal_v1 :: "dataframe \<Rightarrow> int \<Rightarrow> event list" where
  "threshold_signal_v1 top_rated_df t =
     (if \<not> df_empty top_rated_df
      then [Table (rated_title t) (Frame top_rated_df),
            Alert Success (emoji_plate @ '' There are '' @ str_nat (length (rows top_rated_df))
                             @ '' cereals rated above '' @ str_int t @ ''.'')]
      else [Alert Warning (emoji_confused @ '' No cereals found above that rating.'')])"

definition rating_filter_v1 :: "env \<Rightarrow> int \<Rightarrow> outcome" where
  "rating_filter_v1 ev t =
     unguarded ev RatingFilter
       [Text (''## '' @ emoji_magnifier @ '' Explore Cereals by Rating Threshold'')]
       (case query ev (query_text t) of
          None \<Rightarrow> ([], Some (Raised ''AttributeError''))
        | Some top_rated_df \<Rightarrow> (threshold_signal_v1 top_rated_df t, None))"

section \<open>Analyzer: the steps in order\<close>

text \<open>
  First variant, lines 58 to 68: the only step with a handler.  An exception of the
  body becomes an error alert, and the step ends normally.
\<close>

definition column_types_v1 :: "env \<Rightarrow> dataframe \<Rightarrow> outcome" where
  "column_types_v1 ev df =
     ([Text ''## Column Types''] @
      (case fails ev ColumnTypes of
         Some e \<Rightarrow> [Alert Error (''Error displaying column types: '' @ str_e e)]
       | None \<Rightarrow>
           (if \<not> df_empty df then [Table ''Column Data Types'' (Dtypes df)]
            else [Text ''No data loaded, column types unavailable.''])) @
      [Separator], None)"

definition steps_v1 :: "env \<Rightarrow> dataframe \<Rightarrow> int \<Rightarrow> outcome list" where
  "steps_v1 ev df t =
     [([Text ''# An Understanding and Insightful Analysis of the Cereal Industry''], None),
      column_types_v1 ev df,
      unguarded ev Preview [Text ''## Cereal Analytics & Insights Data'']
        ([Table ''Sample Data'' (Frame df), Separator], None),
      unguarded ev Summary [Text ''## Key Metrics Summary (Numerical Only)'']
        ([Table ''Numerical Summary'' (Described df), Separator], None),
      unguarded ev ValueCounts [Text ''## Cereal Category Value Counts'']
        (value_count_tables_v1 ev df @ [Separator], None),
      unguarded ev MissingValues [Text ''## Missing Value Counts'']
        ([missing_summary ''## Missing Values Count: None'' df, Separator], None),
      rating_filter_v1 ev t]"

text \<open>
  \<^verbatim>\<open>analyze_data\<close> of the first variant: the events emitted, and the cleaned frame it
  returns or the exception that leaves it.
\<close>

definition analyze_data_v1 :: "env \<Rightarrow> dataframe \<Rightarrow> int \<Rightarrow> event list \<times> (error + dataframe)" where
  "analyze_data_v1 ev load_data t =
     (case clean_v1 load_data of
        Inl e \<Rightarrow> ([], Inl e)
      | Inr df \<Rightarrow>
          (case run_steps (steps_v1 ev df t) of
             (evs, Some e) \<Rightarrow> (evs, Inl e)
           | (evs, None) \<Rightarrow> (evs, Inr df)))"

text \<open>
  Final variant, lines 62 to 96: three queries on the source table.  A result that is
  \<^verbatim>\<open>None\<close> or empty is skipped; otherwise the first row of the result is read.
\<close>

definition nl :: string where
  "nl = [CHR 0x0A]"

definition total_query :: string where
  "total_query =
     nl @ ''        SELECT COUNT(*) AS total_cereals'' @
     nl @ ''        FROM sample_csv'' @
     nl @ ''    ''"

definition avg_query :: string where
  "avg_query =
     nl @ ''        SELECT ROUND(AVG(CAST(calories AS DOUBLE)), 2) AS avg_calories'' @
     nl @ ''        FROM sample_csv'' @
     nl @ ''    ''"

definition sugar_query :: string where
  "sugar_query =
     nl @ ''        SELECT name,'' @
     nl @ ''               CAST(sugars AS DOUBLE) AS sugars'' @
     nl @ ''        FROM sample_csv'' @
     nl @ ''        ORDER BY sugars DESC'' @
     nl @ ''        LIMIT 3'' @
     nl @ ''    ''"

text \<open>\<^verbatim>\<open>d[c].iloc[0]\<close> on a frame that is not empty.\<close>

definition first_value :: "dataframe \<Rightarrow> string \<Rightarrow> error + cell" where
  "first_value d c =
     (if c \<in> set (columns d)
      then (case rows d of [] \<Rightarrow> Inl (Raised ''IndexError'') | r # _ \<Rightarrow> Inr (cellv r c))
      else Inl (KeyError c))"

text \<open>The strings of a column for \<^verbatim>\<open>", ".join\<close>, which raises on anything but a string.\<close>

fun names_of :: "cell list \<Rightarrow> error + string list" where
  "names_of [] = Inr []"
| "names_of (Str s # vs) =
     (case names_of vs of Inl e \<Rightarrow> Inl e | Inr ss \<Rightarrow> Inr (s # ss))"
| "names_of (_ # vs) = Inl (TypeError ''join'')"

definition intro_total :: "env \<Rightarrow> outcome" where
  "intro_total ev =
     (case query ev total_query of
        None \<Rightarrow> ([], None)
      | Some total_df \<Rightarrow>
          (if df_empty total_df then ([], None)
           else (case first_value total_df ''total_cereals'' of
                   Inl e \<Rightarrow> ([], Some e)
                 | Inr total_v \<Rightarrow>
                     ([Alert Info (''We chose to look at '' @ fmt ev total_v @
                         '' cereals out there and found a robust dataset to help us out.'')],
                      None))))"

definition intro_avg :: "env \<Rightarrow> outcome" where
  "intro_avg ev =
     (case query ev avg_query of
        None \<Rightarrow> ([], None)
      | Some avg_cal_df \<Rightarrow>
          (if df_empty avg_cal_df then ([], None)
           else (case first_value avg_cal_df ''avg_calories'' of
                   Inl e \<Rightarrow> ([], Some e)
                 | Inr avg_cal \<Rightarrow>
                     ([AlertDefault (''Thought that cereal is a high calorie treat? '' @
                         ''Actually the average calories per modest serving are actually more like ''
                         @ fmt ev avg_cal @ '' calories!'')],
                      None))))"

definition intro_sugar :: "env \<Rightarrow> outcome" where
  "intro_sugar ev =
     (case query ev sugar_query of
        None \<Rightarrow> ([], None)
      | Some sugar_df \<Rightarrow>
          (if df_empty sugar_df then ([], None)
           else (case getcol sugar_df ''name'' of
                   Inl e \<Rightarrow> ([], Some e)
                 | Inr vs \<Rightarrow>
                     (case names_of vs of
                        Inl e \<Rightarrow> ([], Some e)
                      | Inr top3 \<Rightarrow>
                          ([Alert Warning (''Cereals can pack a sugary punch though! Here'' @
                              [CHR 0x27] @ ''s a little insider info on the 3 most sugary '' @
                              ''cereals to watch out for: '' @ join_comma top3)],
                           None)))))"

definition intro_final :: "env \<Rightarrow> outcome" where
  "intro_final ev =
     unguarded ev Intro
       [Text ''## Getting Started: Looking at Cereal a Different Way'']
       (run_steps [intro_total ev, intro_avg ev, intro_sugar ev, ([Separator], None)])"

text \<open>Final variant, lines 98 to 108: the column types, without a handler.\<close>

definition column_types_final :: "env \<Rightarrow> dataframe \<Rightarrow> outcome" where
  "column_types_final ev df =
     unguarded ev ColumnTypes
       [Text ''## Understanding the Data: Column Types'']
       ((if \<not> df_empty df then [Table ''Column Data Types'' (Dtypes df)]
         else [Text ''No data loaded, column types unavailable.'']) @ [Separator], None)"

definition steps_final :: "env \<Rightarrow> dataframe \<Rightarrow> int \<Rightarrow> outcome list" where
  "steps_final ev df t =
     [([Sidebar,
        Text ''# The Cereal Industry: An Interactive Overview With Analytics & Insights''],
       None),
      intro_final ev,
      column_types_final ev df,
      unguarded ev Preview [Text ''## Cereal Analytics & Insights: The Dataset'']
        ([Table ''Sample Data'' (Frame df), Separator], None),
      unguarded ev Summary [Text ''## Key Metrics Summary (Numerical Only)'']
        ([Table ''Numerical Summary'' (Described df), Separator], None),
      unguarded ev ValueCounts [Text ''## The Cereal Dichotomy: Hot vs. Cold Value Counts'']
        (value_count_tables_final ev df @ [Separator], None),
      unguarded ev MissingValues [Text ''## Full Transparency: Missing Value Counts'']
        ([missing_summary ''No missing values detected.'' df, Separator], None),
      rating_filter_final ev df t]"

text \<open>\<^verbatim>\<open>analyze_data\<close> of the final variant.\<close>

definition analyze_data_final ::
  "env \<Rightarrow> dataframe \<Rightarrow> int \<Rightarrow> event list \<times> (error + dataframe)" where
  "analyze_data_final ev load_data t =
     (case clean_final load_data of
        Inl e \<Rightarrow> ([], Inl e)
      | Inr df \<Rightarrow>
          (case run_steps (steps_final ev df t) of
             (evs, Some e) \<Rightarrow> (evs, Inl e)
           | (evs, None) \<Rightarrow> (evs, Inr df)))"

section \<open>Visualizer: the grouped means\<close>

text \<open>
  \<^verbatim>\<open>groupby("type_full")\<close> leaves out the rows whose key is missing and orders the
  groups by key: numbers by value, strings by their characters, numbers first.
\<close>

fun str_le :: "string \<Rightarrow> string \<Rightarrow> bool" where
  "str_le [] t = True"
| "str_le (a # s) [] = False"
| "str_le (a # s) (b # t) =
     (if a = b then str_le s t else (of_char a :: nat) < of_char b)"

fun key_le :: "cell \<Rightarrow> cell \<Rightarrow> bool" where
  "key_le (Num x) (Num y) = (x \<le> y)"
| "key_le (Num x) (Str t) = True"
| "key_le (Str s) (Num y) = False"
| "key_le (Str s) (Str t) = str_le s t"
| "key_le NA k = True"
| "key_le k NA = False"

fun insert_key :: "cell \<Rightarrow> cell list \<Rightarrow> cell list" where
  "insert_key k [] = [k]"
| "insert_key k (j # js) = (if key_le k j then k # j # js else j # insert_key k js)"

definition group_keys :: "cell list \<Rightarrow> cell list" where
  "group_keys vs = foldr insert_key (remdups (filter (\<lambda>v. v \<noteq> NA) vs)) []"

text \<open>
  \<^verbatim>\<open>.mean()\<close> of one column of one group: the missing cells are skipped, a group
  without a number has a missing mean, and a string cell raises.
\<close>

fun numbers_of :: "cell list \<Rightarrow> error + real list" where
  "numbers_of [] = Inr []"
| "numbers_of (NA # vs) = numbers_of vs"
| "numbers_of (Num x # vs) =
     (case numbers_of vs of Inl e \<Rightarrow> Inl e | Inr xs \<Rightarrow> Inr (x # xs))"
| "numbers_of (Str s # vs) = Inl (TypeError s)"

definition mean_cells :: "cell list \<Rightarrow> error + cell" where
  "mean_cells vs =
     (case numbers_of vs of
        Inl e \<Rightarrow> Inl e
      | Inr xs \<Rightarrow>
          Inr (if xs = [] then NA else Num (sum_list xs / real (length xs))))"

fun sequence_err :: "(error + 'a) list \<Rightarrow> error + 'a list" where
  "sequence_err [] = Inr []"
| "sequence_err (Inl e # rest) = Inl e"
| "sequence_err (Inr x # rest) =
     (case sequence_err rest of Inl e \<Rightarrow> Inl e | Inr xs \<Rightarrow> Inr (x # xs))"

text \<open>
  What pandas and numpy decide about a column, and this development does not compute,
  is given by a record: whether the column has the dtype \<^verbatim>\<open>object\<close> (\<open>object_dtype\<close>,
  on the cells of the whole column); the group means of such a column, given the cells
  of each group (\<open>object_means\<close>: pandas raises, leaves the column out of the result,
  or gives one value per group, according to its version and the cells); and the
  rounding of a double to two decimals (\<open>round2\<close>).
\<close>

record numlib =
  object_dtype :: "cell list \<Rightarrow> bool"
  object_means :: "cell list list \<Rightarrow> error + cell list option"
  round2 :: "real \<Rightarrow> real"

definition column_of :: "row list \<Rightarrow> string \<Rightarrow> cell list" where
  "column_of rs c = map (\<lambda>r. cellv r c) rs"

text \<open>\<^verbatim>\<open>.round(2)\<close> on one mean of a numeric column; a missing mean stays missing.\<close>

definition round_cell :: "numlib \<Rightarrow> cell \<Rightarrow> cell" where
  "round_cell lib m = (case m of Num x \<Rightarrow> Num (round2 lib x) | _ \<Rightarrow> m)"

text \<open>
  The means of one column, group by group, and what follows \<^verbatim>\<open>.mean()\<close> (\<open>post\<close>).
  \<open>col\<close> is the whole column, which decides the dtype, and \<open>grps\<close> holds the cells of
  each group.  A column of dtype \<^verbatim>\<open>object\<close> is left to the library, and \<^verbatim>\<open>.round(2)\<close>
  does not change it.
\<close>

definition column_means ::
  "numlib \<Rightarrow> (cell \<Rightarrow> cell) \<Rightarrow> cell list \<Rightarrow> cell list list \<Rightarrow> error + cell list option" where
  "column_means lib post col grps =
     (if object_dtype lib col then object_means lib grps
      else (case sequence_err (map mean_cells grps) of
              Inl e \<Rightarrow> Inl e
            | Inr ms \<Rightarrow> Inr (Some (map post ms))))"

text \<open>The columns that are in the result, with their names.\<close>

definition kept_columns :: "string list \<Rightarrow> cell list option list \<Rightarrow> (string \<times> cell list) list" where
  "kept_columns cs ms =
     concat (map2 (\<lambda>c m. case m of None \<Rightarrow> [] | Some vs \<Rightarrow> [(c, vs)]) cs ms)"

definition cell_at :: "cell list \<Rightarrow> nat \<Rightarrow> cell" where
  "cell_at vs i = (if i < length vs then vs ! i else NA)"

text \<open>\<^verbatim>\<open>reset_index()\<close>: one row per group, the key first, then the kept columns.\<close>

definition frame_of_columns :: "string \<Rightarrow> cell list \<Rightarrow> (string \<times> cell list) list \<Rightarrow> dataframe" where
  "frame_of_columns key ks cols =
     \<lparr>columns = key # map fst cols,
      rows = map (\<lambda>i. (key, cell_at ks i) # map (\<lambda>(c, vs). (c, cell_at vs i)) cols)
                 [0..<length ks]\<rparr>"

text \<open>
  \<^verbatim>\<open>df.groupby(key)[cs].mean()\<close>, what follows it, and \<^verbatim>\<open>reset_index()\<close>.  The dtypes are
  those of the columns of \<open>typed\<close>, the rows of the frame the step received.
\<close>

definition grouped_mean ::
  "numlib \<Rightarrow> (cell \<Rightarrow> cell) \<Rightarrow> row list \<Rightarrow> string \<Rightarrow> string list \<Rightarrow> dataframe \<Rightarrow>
   error + dataframe" where
  "grouped_mean lib post typed key cs df =
     (if key \<notin> set (columns df) then Inl (KeyError key)
      else (case filter (\<lambda>c. c \<notin> set (columns df)) cs of
              c # _ \<Rightarrow> Inl (KeyError c)
            | [] \<Rightarrow>
                (let ks = group_keys (column_of (rows df) key) in
                 case sequence_err
                        (map (\<lambda>c. column_means lib post (column_of typed c)
                                     (map (\<lambda>k. column_of (filter (\<lambda>r. cellv r key = k) (rows df)) c)
                                          ks))
                             cs) of
                   Inl e \<Rightarrow> Inl e
                 | Inr ms \<Rightarrow> Inr (frame_of_columns key ks (kept_columns cs ms)))))"

text \<open>\<^verbatim>\<open>df.dropna()\<close>: the rows without a missing cell in any column.\<close>

definition dropna :: "dataframe \<Rightarrow> dataframe" where
  "dropna df =
     df\<lparr>rows := filter (\<lambda>r. list_all (\<lambda>c. cellv r c \<noteq> NA) (columns df)) (rows df)\<rparr>"

definition mean_cols :: "string list" where
  "mean_cols = [''calories'', ''protein'', ''fat'']"

text \<open>
  First variant, line 153:
  \<^verbatim>\<open>df.dropna().groupby('type_full')[['calories', 'protein', 'fat']].mean().reset_index()\<close>
  Nothing follows \<^verbatim>\<open>mean()\<close>: the means are not rounded.
\<close>

definition avg_df_v1 :: "numlib \<Rightarrow> dataframe \<Rightarrow> error + dataframe" where
  "avg_df_v1 lib df =
     grouped_mean lib (\<lambda>m. m) (rows df) ''type_full'' mean_cols (dropna df)"

text \<open>
  Final variant, lines 195 to 201:
  \<^verbatim>\<open>df.groupby("type_full")[["calories", "protein", "fat"]].mean().round(2).reset_index()\<close>
  There is no \<^verbatim>\<open>dropna()\<close>: every row with a key is in its group.
\<close>

definition avg_df_final :: "numlib \<Rightarrow> dataframe \<Rightarrow> error + dataframe" where
  "avg_df_final lib df =
     grouped_mean lib (round_cell lib) (rows df) ''type_full'' mean_cols df"

section \<open>Auxiliary notions and example tables\<close>

text \<open>A row passes the cleaning filter when both comparisons succeed and hold.\<close>

definition positive_row :: "row \<Rightarrow> bool" where
  "positive_row = (\<lambda>r. gt0 (cellv r ''calories'') = Inr True \<and> gt0 (cellv r ''rating'') = Inr True)"

text \<open>The effect of the coercion loop on one row.\<close>

definition coerce_row :: "(string \<Rightarrow> real option) \<Rightarrow> string list \<Rightarrow> row \<Rightarrow> row" where
  "coerce_row parse cs r = fold (\<lambda>c r. AList.update c (to_numeric parse (cellv r c)) r) cs r"

text \<open>
  A run in which no library call raises and the query executor returns nothing, and a
  loaded table of two cereals, the second with the sentinel -1 in two columns.
\<close>

definition ex_env :: env where
  "ex_env = \<lparr>fails = (\<lambda>s. None), query = (\<lambda>q. None), fmt = (\<lambda>v. []), is_object = (\<lambda>vs. False)\<rparr>"

definition ex_cols :: "string list" where
  "ex_cols =
     [''name'', ''mfr'', ''type'', ''calories'', ''protein'', ''fat'', ''rating'',
      ''manufacturer_full'', ''type_full'']"

definition ex_row_k :: row where
  "ex_row_k =
     [(''name'', Str ''All-Bran''), (''mfr'', Str ''K''), (''type'', Str ''C''),
      (''calories'', Num 110), (''protein'', Num 4), (''fat'', Num 1), (''rating'', Num 93.5),
      (''manufacturer_full'', Str ''Kelloggs''), (''type_full'', Str ''Cold'')]"

definition ex_row_bad :: row where
  "ex_row_bad =
     [(''name'', Str ''Void''), (''mfr'', Str ''Q''), (''type'', Str ''H''),
      (''calories'', Num (- 1)), (''protein'', Num 4), (''fat'', Num (- 1)), (''rating'', Num 20),
      (''manufacturer_full'', Str ''Quaker Oats''), (''type_full'', Str ''Hot'')]"

definition ex_loaded :: dataframe where
  "ex_loaded = \<lparr>columns = ex_cols, rows = [ex_row_k, ex_row_bad]\<rparr>"

definition ex_cleaned :: dataframe where
  "ex_cleaned = \<lparr>columns = ex_cols, rows = [ex_row_k]\<rparr>"

text \<open>
  A source table of three cereals whose \<^verbatim>\<open>carbo\<close>, \<^verbatim>\<open>sugars\<close> and \<^verbatim>\<open>potass\<close> columns are
  text: the first is complete, the second has an unparseable \<^verbatim>\<open>potass\<close>, the third has
  no calories value and an unknown manufacturer code.
\<close>

definition ex_parse :: "string \<Rightarrow> real option" where
  "ex_parse = map_of [(''7'', 7), (''5'', 5), (''320'', 320), (''21'', 21), (''0'', 0)]"

definition ex_src_cols :: "string list" where
  "ex_src_cols =
     [''name'', ''mfr'', ''type'', ''calories'', ''protein'', ''fat'', ''sodium'', ''fiber'',
      ''carbo'', ''sugars'', ''potass'', ''vitamins'', ''shelf'', ''weight'', ''cups'', ''rating'']"

definition ex_src_a :: row where
  "ex_src_a =
     [(''name'', Str ''All-Bran''), (''mfr'', Str ''K''), (''type'', Str ''C''),
      (''calories'', Num 70), (''protein'', Num 4), (''fat'', Num 1), (''sodium'', Num 260),
      (''fiber'', Num 9), (''carbo'', Str ''7''), (''sugars'', Str ''5''),
      (''potass'', Str ''320''), (''vitamins'', Num 25), (''shelf'', Num 3),
      (''weight'', Num 1), (''cups'', Num (1 / 3)), (''rating'', Num 59)]"

definition ex_src_b :: row where
  "ex_src_b =
     [(''name'', Str ''Cream of Wheat''), (''mfr'', Str ''N''), (''type'', Str ''H''),
      (''calories'', Num 100), (''protein'', Num 3), (''fat'', Num 0), (''sodium'', Num 80),
      (''fiber'', Num 1), (''carbo'', Str ''21''), (''sugars'', Str ''0''),
      (''potass'', Str ''n/a''), (''vitamins'', Num 0), (''shelf'', Num 2),
      (''weight'', Num 1), (''cups'', Num 1), (''rating'', Num 64)]"

definition ex_src_c :: row where
  "ex_src_c =
     [(''name'', Str ''Mystery''), (''mfr'', Str ''X''), (''type'', Str ''C''),
      (''calories'', NA), (''protein'', Num 4), (''fat'', Num 1), (''sodium'', Num 260),
      (''fiber'', Num 9), (''carbo'', Str ''7''), (''sugars'', Str ''5''),
      (''potass'', Str ''320''), (''vitamins'', Num 25), (''shelf'', Num 3),
      (''weight'', Num 1), (''cups'', Num 1), (''rating'', Num 30)]"

definition ex_src :: dataframe where
  "ex_src = \<lparr>columns = ex_src_cols, rows = [ex_src_a, ex_src_b, ex_src_c]\<rparr>"

definition ex_out_a :: row where
  "ex_out_a =
     [(''name'', Str ''All-Bran''), (''mfr'', Str ''K''), (''type'', Str ''C''),
      (''calories'', Num 70), (''protein'', Num 4), (''fat'', Num 1), (''sodium'', Num 260),
      (''fiber'', Num 9), (''carbo'', Num 7), (''sugars'', Num 5),
      (''potass'', Num 320), (''vitamins'', Num 25), (''shelf'', Num 3),
      (''weight'', Num 1), (''cups'', Num (1 / 3)), (''rating'', Num 59),
      (''manufacturer_full'', Str ''Kelloggs''), (''type_full'', Str ''Cold'')]"

definition ex_out_c :: row where
  "ex_out_c =
     [(''name'', Str ''Mystery''), (''mfr'', Str ''X''), (''type'', Str ''C''),
      (''calories'', NA), (''protein'', Num 4), (''fat'', Num 1), (''sodium'', Num 260),
      (''fiber'', Num 9), (''carbo'', Num 7), (''sugars'', Num 5),
      (''potass'', Num 320), (''vitamins'', Num 25), (''shelf'', Num 3),
      (''weight'', Num 1), (''cups'', Num 1), (''rating'', Num 30),
      (''manufacturer_full'', NA), (''type_full'', Str ''Cold'')]"

definition ex_out_cols :: "string list" where
  "ex_out_cols = ex_src_cols @ [''manufacturer_full'', ''type_full'']"

text \<open>
  An analyzed table of two cereals in source order, the lower rating first, and one
  with a rating above 101.
\<close>

definition ex_row_low :: row where
  "ex_row_low =
     [(''name'', Str ''Corn Pops''), (''mfr'', Str ''K''), (''type'', Str ''C''),
      (''calories'', Num 110), (''protein'', Num 1), (''fat'', Num 0), (''rating'', Num 36),
      (''manufacturer_full'', Str ''Kelloggs''), (''type_full'', Str ''Cold'')]"

definition ex_row_high :: row where
  "ex_row_high =
     [(''name'', Str ''Off Scale''), (''mfr'', Str ''N''), (''type'', Str ''H''),
      (''calories'', Num 90), (''protein'', Num 2), (''fat'', Num 0), (''rating'', Num 150),
      (''manufacturer_full'', Str ''Nabisco''), (''type_full'', Str ''Hot'')]"

definition ex_analyzed :: dataframe where
  "ex_analyzed = \<lparr>columns = ex_cols, rows = [ex_row_low, ex_row_k]\<rparr>"

definition ex_off_scale :: dataframe where
  "ex_off_scale = \<lparr>columns = ex_cols, rows = [ex_row_high]\<rparr>"

text \<open>\<^verbatim>\<open>[["name", "manufacturer_full", "rating"]]\<close> on one row.\<close>

definition view_row :: "row \<Rightarrow> row" where
  "view_row r = map (\<lambda>c. (c, cellv r c)) view_cols"

text \<open>Two query results: one matching cereal, and none.\<close>

definition ex_view_one :: dataframe where
  "ex_view_one = \<lparr>columns = view_cols, rows = [view_row ex_row_k]\<rparr>"

definition ex_view_none :: dataframe where
  "ex_view_none = \<lparr>columns = view_cols, rows = []\<rparr>"

text \<open>The numbers among the cells of a column, and their mean (missing when there are none).\<close>

definition nums_in :: "cell list \<Rightarrow> real list" where
  "nums_in vs = concat (map (\<lambda>v. case v of Num x \<Rightarrow> [x] | _ \<Rightarrow> []) vs)"

definition mean_of :: "real list \<Rightarrow> cell" where
  "mean_of xs = (if xs = [] then NA else Num (sum_list xs / real (length xs)))"

text \<open>The rows of a frame that belong to the group of a key.\<close>

definition group_of :: "dataframe \<Rightarrow> cell \<Rightarrow> row list" where
  "group_of df k = filter (\<lambda>r. cellv r ''type_full'' = k) (rows df)"

text \<open>
  A library in which a column is of dtype \<^verbatim>\<open>object\<close> when it holds anything but
  numbers, the mean of such a column raises, and the rounding is to the nearest
  hundredth; it is applied below to whole numbers only, which every rounding to two
  decimals leaves as they are.  The two runs have the same dtypes; in the second the
  query executor returns the one-row result.
\<close>

definition holds_non_number :: "cell list \<Rightarrow> bool" where
  "holds_non_number vs = list_ex (\<lambda>v. case v of Num x \<Rightarrow> False | _ \<Rightarrow> True) vs"

definition ex_lib :: numlib where
  "ex_lib =
     \<lparr>object_dtype = holds_non_number,
      object_means = (\<lambda>grps. Inl (TypeError ''object'')),
      round2 = (\<lambda>x. real_of_int (round (x * 100)) / 100)\<rparr>"

definition ex_env_plain :: env where
  "ex_env_plain =
     \<lparr>fails = (\<lambda>s. None), query = (\<lambda>q. None), fmt = (\<lambda>v. []), is_object = holds_non_number\<rparr>"

definition ex_env_query :: env where
  "ex_env_query =
     \<lparr>fails = (\<lambda>s. None), query = (\<lambda>q. Some ex_view_one), fmt = (\<lambda>v. []),
      is_object = holds_non_number\<rparr>"

text \<open>
  Tables for the grouped means.  Two cold cereals with 100 and 120 calories and a hot
  one with 90.  Eight cold cereals, seven with 100 calories and one with 101.  Two
  cold cereals with 100 and 120 calories, the first with the sentinel -1 as its
  \<^verbatim>\<open>potass\<close>, before and after the analyzer.
\<close>

definition cereal :: "string \<Rightarrow> string \<Rightarrow> real \<Rightarrow> real \<Rightarrow> real \<Rightarrow> cell \<Rightarrow> real \<Rightarrow> row" where
  "cereal nm ty cal pro ft pot rat =
     [(''name'', Str nm), (''manufacturer_full'', Str ''Kelloggs''), (''type_full'', Str ty),
      (''calories'', Num cal), (''protein'', Num pro), (''fat'', Num ft), (''potass'', pot),
      (''rating'', Num rat)]"

definition ex_viz_cols :: "string list" where
  "ex_viz_cols =
     [''name'', ''manufacturer_full'', ''type_full'', ''calories'', ''protein'', ''fat'',
      ''potass'', ''rating'']"

definition ex_types :: dataframe where
  "ex_types =
     \<lparr>columns = ex_viz_cols,
      rows = [cereal ''a'' ''Cold'' 100 2 1 (Num 30) 40,
              cereal ''b'' ''Hot'' 90 3 0 (Num 95) 60,
              cereal ''c'' ''Cold'' 120 4 1 (Num 40) 35]\<rparr>"

definition ex_eighths :: dataframe where
  "ex_eighths =
     \<lparr>columns = ex_viz_cols,
      rows = [cereal ''a'' ''Cold'' 100 2 1 (Num 30) 40,
              cereal ''b'' ''Cold'' 100 2 1 (Num 30) 40,
              cereal ''c'' ''Cold'' 100 2 1 (Num 30) 40,
              cereal ''d'' ''Cold'' 100 2 1 (Num 30) 40,
              cereal ''e'' ''Cold'' 100 2 1 (Num 30) 40,
              cereal ''f'' ''Cold'' 100 2 1 (Num 30) 40,
              cereal ''g'' ''Cold'' 100 2 1 (Num 30) 40,
              cereal ''h'' ''Cold'' 101 2 1 (Num 30) 40]\<rparr>"

definition ex_potass_src :: dataframe where
  "ex_potass_src =
     \<lparr>columns = ex_viz_cols,
      rows = [cereal ''a'' ''Cold'' 100 4 1 (Num (- 1)) 40,
              cereal ''b'' ''Cold'' 120 2 1 (Num 50) 45]\<rparr>"

definition ex_potass :: dataframe where
  "ex_potass =
     \<lparr>columns = ex_viz_cols,
      rows = [cereal ''a'' ''Cold'' 100 4 1 NA 40,
              cereal ''b'' ''Cold'' 120 2 1 (Num 50) 45]\<rparr>"

definition means_cols :: "string list" where
  "means_cols = [''type_full'', ''calories'', ''protein'', ''fat'']"

definition means_row :: "string \<Rightarrow> real \<Rightarrow> real \<Rightarrow> real \<Rightarrow> row" where
  "means_row ty cal pro ft =
     [(''type_full'', Str ty), (''calories'', Num cal), (''protein'', Num pro), (''fat'', Num ft)]"

text \<open>
  A run in which every column has the dtype \<^verbatim>\<open>object\<close>, and a table with one column of
  twelve cells holding eleven distinct manufacturer codes.
\<close>

definition ex_env_object :: env where
  "ex_env_object =
     \<lparr>fails = (\<lambda>s. None), query = (\<lambda>q. None), fmt = (\<lambda>v. []), is_object = (\<lambda>vs. True)\<rparr>"

definition ex_codes :: dataframe where
  "ex_codes =
     \<lparr>columns = [''mfr''],
      rows = map (\<lambda>s. [(''mfr'', Str s)])
               [''A'', ''B'', ''B'', ''C'', ''D'', ''E'', ''F'', ''G'', ''H'', ''I'', ''J'', ''K'']\<rparr>"

definition ex_counts :: "(cell \<times> nat) list" where
  "ex_counts =
     [(Str ''B'', 2), (Str ''A'', 1), (Str ''C'', 1), (Str ''D'', 1), (Str ''E'', 1),
      (Str ''F'', 1), (Str ''G'', 1), (Str ''H'', 1), (Str ''I'', 1), (Str ''J'', 1),
      (Str ''K'', 1)]"





text \<open>A run in which no call raises and the query executor finds no cereal.\<close>

definition ex_env_no_match :: env where
  "ex_env_no_match =
     \<lparr>fails = (\<lambda>s. None), query = (\<lambda>q. Some ex_view_none), fmt = (\<lambda>v. []),
      is_object = holds_non_number\<rparr>"

section \<open>Properties of the cleaning step\<close>

lemma replace_cell_idem: "replace_cell (replace_cell v) = replace_cell v"
  by (simp add: replace_cell_def)

text \<open>
  Claim C5.  The table-wide replacement of -1 by the missing marker is idempotent:
  applying it twice gives the same table as applying it once.
\<close>

theorem replace_m1_idempotent: "replace_m1 (replace_m1 df) = replace_m1 df"
  by (simp add: replace_m1_def comp_def case_prod_unfold replace_cell_idem)

lemma gt0_True: "gt0 v = Inr True \<longleftrightarrow> (\<exists>x. v = Num x \<and> 0 < x)"
  by (cases v) auto

lemma compare_all_filter:
  "compare_all p (map f rs) = Inr bs \<Longrightarrow>
   map fst (filter snd (zip rs bs)) = filter (\<lambda>r. p (f r) = Inr True) rs"
  by (induction rs arbitrary: bs) (auto split: sum.splits)

lemma compare_all_filter2:
  "compare_all p (map f rs) = Inr b1 \<Longrightarrow> compare_all q (map g rs) = Inr b2 \<Longrightarrow>
   map fst (filter snd (zip rs (map2 (\<and>) b1 b2))) =
     filter (\<lambda>r. p (f r) = Inr True \<and> q (g r) = Inr True) rs"
  by (induction rs arbitrary: b1 b2) (auto split: sum.splits)

lemma cellv_replace:
  "cellv (map (\<lambda>(k, v). (k, replace_cell v)) r) c = replace_cell (cellv r c)"
  by (induction r) (auto simp: cellv_def replace_cell_def)

lemma select_mask_gt0:
  assumes "mask_gt0 df c = Inr m"
  shows "rows (select_rows df m) = filter (\<lambda>r. gt0 (cellv r c) = Inr True) (rows df)"
proof -
  from assms have "compare_all gt0 (map (\<lambda>r. cellv r c) (rows df)) = Inr m"
    by (simp add: mask_gt0_def getcol_def split: if_splits)
  then show ?thesis
    by (simp add: select_rows_def compare_all_filter)
qed

lemma select_mask_gt0_both:
  assumes "mask_gt0 df c = Inr m1" and "mask_gt0 df c' = Inr m2"
  shows "rows (select_rows df (map2 (\<and>) m1 m2)) =
         filter (\<lambda>r. gt0 (cellv r c) = Inr True \<and> gt0 (cellv r c') = Inr True) (rows df)"
proof -
  from assms have "compare_all gt0 (map (\<lambda>r. cellv r c) (rows df)) = Inr m1"
    and "compare_all gt0 (map (\<lambda>r. cellv r c') (rows df)) = Inr m2"
    by (simp_all add: mask_gt0_def getcol_def split: if_splits)
  then show ?thesis
    unfolding select_rows_def by (simp add: compare_all_filter2)
qed

lemma rows_replace_m1:
  "rows (replace_m1 df) = map (map (\<lambda>(k, v). (k, replace_cell v))) (rows df)"
  by (simp add: replace_m1_def)

lemma clean_v1_rows:
  assumes "clean_v1 df = Inr out"
  shows "rows out = map (map (\<lambda>(k, v). (k, replace_cell v))) (filter positive_row (rows df))"
proof -
  from assms obtain m1 m2 where m1: "mask_gt0 df ''calories'' = Inr m1"
    and m2: "mask_gt0 (select_rows df m1) ''rating'' = Inr m2"
    and out: "out = replace_m1 (select_rows (select_rows df m1) m2)"
    by (auto simp: clean_v1_def Let_def split: sum.splits)
  have "rows (select_rows (select_rows df m1) m2) = filter positive_row (rows df)"
    by (simp add: select_mask_gt0[OF m2] select_mask_gt0[OF m1] positive_row_def conj_commute)
  then show ?thesis by (simp add: out rows_replace_m1)
qed

lemma clean_final_rows:
  assumes "clean_final df = Inr out"
  shows "rows out = map (map (\<lambda>(k, v). (k, replace_cell v))) (filter positive_row (rows df))"
proof -
  from assms obtain m1 m2 where m1: "mask_gt0 df ''calories'' = Inr m1"
    and m2: "mask_gt0 df ''rating'' = Inr m2"
    and out: "out = replace_m1 (select_rows df (map2 (\<and>) m1 m2))"
    by (auto simp: clean_final_def split: sum.splits)
  have "rows (select_rows df (map2 (\<and>) m1 m2)) = filter positive_row (rows df)"
    using select_mask_gt0_both[OF m1 m2] by (simp add: positive_row_def)
  then show ?thesis by (simp add: out rows_replace_m1)
qed

lemma cleaned_cell_positive:
  assumes "gt0 (cellv r c) = Inr True"
  shows "\<exists>x. cellv (map (\<lambda>(k, v). (k, replace_cell v)) r) c = Num x \<and> 0 < x"
  using assms unfolding cellv_replace gt0_True by (auto simp: replace_cell_def)

section \<open>Properties of the analyzer's output table\<close>

lemma analyze_v1_clean:
  "snd (analyze_data_v1 ev src t) = Inr out \<Longrightarrow> clean_v1 src = Inr out"
  by (auto simp: analyze_data_v1_def split: sum.splits prod.splits option.splits)

lemma analyze_final_clean:
  "snd (analyze_data_final ev src t) = Inr out \<Longrightarrow> clean_final src = Inr out"
  by (auto simp: analyze_data_final_def split: sum.splits prod.splits option.splits)

lemma analyzed_rows:
  assumes "snd (analyze_data_v1 ev src t) = Inr out \<or> snd (analyze_data_final ev src t) = Inr out"
  shows "rows out = map (map (\<lambda>(k, v). (k, replace_cell v))) (filter positive_row (rows src))"
  using assms clean_v1_rows[OF analyze_v1_clean] clean_final_rows[OF analyze_final_clean]
  by blast

lemma ex_clean_final: "clean_final ex_loaded = Inr ex_cleaned"
  by (simp add: clean_final_def mask_gt0_def getcol_def ex_loaded_def ex_cols_def ex_row_k_def
      ex_row_bad_def cellv_def select_rows_def replace_m1_def replace_cell_def ex_cleaned_def)

lemma ex_analyze_final: "snd (analyze_data_final ex_env ex_loaded 85) = Inr ex_cleaned"
  unfolding analyze_data_final_def ex_clean_final
  by (simp add: ex_cleaned_def steps_final_def ex_env_def unguarded_def
      intro_final_def intro_total_def intro_avg_def intro_sugar_def column_types_final_def
      rating_filter_final_def threshold_view_final_def getcol_def ex_cols_def ex_row_k_def
      cellv_def select_rows_def project_def view_cols_def split: prod.splits)

text \<open>
  Claim C4.  Whenever the analyzer of either variant returns a table, every row of that
  table has a numeric calories cell and a numeric rating cell, both strictly positive.
\<close>

theorem analyzer_rows_positive:
  assumes "snd (analyze_data_v1 ev src t) = Inr out \<or> snd (analyze_data_final ev src t) = Inr out"
    and "r \<in> set (rows out)"
  shows "(\<exists>x. cellv r ''calories'' = Num x \<and> 0 < x) \<and> (\<exists>y. cellv r ''rating'' = Num y \<and> 0 < y)"
proof -
  from assms obtain r0 where r0: "r0 \<in> set (rows src)" "positive_row r0"
    and r: "r = map (\<lambda>(k, v). (k, replace_cell v)) r0"
    unfolding analyzed_rows[OF assms(1)] by auto
  from r0(2) have "gt0 (cellv r0 ''calories'') = Inr True" "gt0 (cellv r0 ''rating'') = Inr True"
    by (simp_all add: positive_row_def)
  then show ?thesis
    unfolding r by (simp add: cleaned_cell_positive)
qed

theorem analyzer_rows_positive_witness:
  "(snd (analyze_data_v1 ex_env ex_loaded 85) = Inr ex_cleaned
      \<or> snd (analyze_data_final ex_env ex_loaded 85) = Inr ex_cleaned)
   \<and> ex_row_k \<in> set (rows ex_cleaned)
   \<and> (\<exists>x. cellv ex_row_k ''calories'' = Num x \<and> 0 < x)
   \<and> (\<exists>y. cellv ex_row_k ''rating'' = Num y \<and> 0 < y)"
proof -
  have h1: "snd (analyze_data_v1 ex_env ex_loaded 85) = Inr ex_cleaned
      \<or> snd (analyze_data_final ex_env ex_loaded 85) = Inr ex_cleaned"
    by (simp add: ex_analyze_final)
  have h2: "ex_row_k \<in> set (rows ex_cleaned)"
    by (simp add: ex_cleaned_def)
  show ?thesis
    using analyzer_rows_positive [OF h1 h2] h1 h2 by simp
qed

text \<open>
  Claim C10.  In the table the analyzer returns, the calories and rating cells are never
  the missing marker: each row comes from a source row that passed the positivity
  filter, so neither cell was -1 and the replacement left both as they were.
\<close>

theorem analyzer_key_columns_not_missing:
  assumes "snd (analyze_data_v1 ev src t) = Inr out \<or> snd (analyze_data_final ev src t) = Inr out"
    and "r \<in> set (rows out)"
  shows "cellv r ''calories'' \<noteq> NA \<and> cellv r ''rating'' \<noteq> NA \<and>
         (\<exists>r0 \<in> set (rows src).
            cellv r0 ''calories'' \<noteq> Num (- 1) \<and> cellv r0 ''rating'' \<noteq> Num (- 1) \<and>
            cellv r ''calories'' = cellv r0 ''calories'' \<and> cellv r ''rating'' = cellv r0 ''rating'')"
proof -
  from assms obtain r0 where r0: "r0 \<in> set (rows src)" "positive_row r0"
    and r: "r = map (\<lambda>(k, v). (k, replace_cell v)) r0"
    unfolding analyzed_rows[OF assms(1)] by auto
  from r0(2) obtain x y where xy: "cellv r0 ''calories'' = Num x" "0 < x"
      "cellv r0 ''rating'' = Num y" "0 < y"
    by (auto simp: positive_row_def gt0_True)
  have "cellv r ''calories'' = Num x" "cellv r ''rating'' = Num y"
    unfolding r cellv_replace using xy by (simp_all add: replace_cell_def)
  with xy r0(1) show ?thesis by force
qed

theorem analyzer_key_columns_not_missing_witness:
  "(snd (analyze_data_v1 ex_env ex_loaded 85) = Inr ex_cleaned
      \<or> snd (analyze_data_final ex_env ex_loaded 85) = Inr ex_cleaned)
   \<and> ex_row_k \<in> set (rows ex_cleaned)
   \<and> cellv ex_row_k ''calories'' \<noteq> NA \<and> cellv ex_row_k ''rating'' \<noteq> NA"
proof -
  have h1: "snd (analyze_data_v1 ex_env ex_loaded 85) = Inr ex_cleaned
      \<or> snd (analyze_data_final ex_env ex_loaded 85) = Inr ex_cleaned"
    by (simp add: ex_analyze_final)
  have h2: "ex_row_k \<in> set (rows ex_cleaned)"
    by (simp add: ex_cleaned_def)
  show ?thesis
    using analyzer_key_columns_not_missing [OF h1 h2] h1 h2 by simp
qed

section \<open>Properties of the loader\<close>


lemma cellv_update: "cellv (AList.update c v r) k = (if k = c then v else cellv r k)"
  by (simp add: cellv_def update_conv')

lemma to_numeric_cases: "to_numeric parse v = NA \<or> (\<exists>x. to_numeric parse v = Num x)"
  by (simp add: to_numeric_def split: cell.splits option.splits)

lemma to_numeric_idem: "to_numeric parse (to_numeric parse v) = to_numeric parse v"
  by (simp add: to_numeric_def split: cell.splits option.splits)

lemma cellv_coerce_row:
  "cellv (coerce_row parse cs r) k = (if k \<in> set cs then to_numeric parse (cellv r k) else cellv r k)"
  unfolding coerce_row_def
  by (induction cs arbitrary: r) (auto simp: cellv_update to_numeric_idem)

lemma coerce_cols_rows:
  "coerce_cols parse cs df = Inr d \<Longrightarrow> rows d = map (coerce_row parse cs) (rows df)"
proof (induction cs arbitrary: df)
  case Nil
  then show ?case by (simp add: coerce_row_def)
next
  case (Cons c cs)
  then show ?case
    by (auto simp: assign_mapped_def coerce_row_def comp_def split: sum.splits if_splits)
qed

lemma dropna_subset_rows:
  "dropna_subset cs df = Inr d \<Longrightarrow>
   rows d = filter (\<lambda>r. \<forall>c\<in>set cs. cellv r c \<noteq> NA) (rows df)"
  by (auto simp: dropna_subset_def list_all_iff split: list.splits)

lemma add_full_names_rows:
  assumes "add_full_names df = Inr d"
  shows "\<exists>f. rows d = map f (rows df) \<and>
             (\<forall>r c. c \<noteq> ''manufacturer_full'' \<longrightarrow> c \<noteq> ''type_full'' \<longrightarrow> cellv (f r) c = cellv r c)"
proof -
  let ?g = "\<lambda>r. AList.update ''manufacturer_full'' (series_map mfr_map (cellv r ''mfr'')) r"
  let ?h = "\<lambda>r. AList.update ''type_full'' (series_map type_map (cellv r ''type'')) r"
  from assms have "rows d = map (?h \<circ> ?g) (rows df)"
    by (auto simp: add_full_names_def assign_mapped_def split: sum.splits if_splits)
  moreover have "\<forall>r c. c \<noteq> ''manufacturer_full'' \<longrightarrow> c \<noteq> ''type_full'' \<longrightarrow> cellv ((?h \<circ> ?g) r) c = cellv r c"
    by (simp add: cellv_update)
  ultimately show ?thesis by blast
qed

lemma load_pipeline:
  assumes c: "coerce_cols parse cs df = Inr d1"
    and d: "dropna_subset cs d1 = Inr d2"
    and a: "add_full_names d2 = Inr out"
    and n: "''manufacturer_full'' \<notin> set cs" "''type_full'' \<notin> set cs"
  shows "(\<forall>r\<in>set (rows out). \<forall>c\<in>set cs. \<exists>x. cellv r c = Num x) \<and>
         map (\<lambda>r. map (cellv r) cs) (rows out) =
           map (\<lambda>r. map (\<lambda>c. to_numeric parse (cellv r c)) cs)
               (filter (\<lambda>r. \<forall>c\<in>set cs. to_numeric parse (cellv r c) \<noteq> NA) (rows df))"
proof -
  let ?keep = "filter (\<lambda>r. \<forall>c\<in>set cs. to_numeric parse (cellv r c) \<noteq> NA) (rows df)"
  from add_full_names_rows[OF a] obtain f where f: "rows out = map f (rows d2)"
    and fc: "\<And>r c. c \<noteq> ''manufacturer_full'' \<Longrightarrow> c \<noteq> ''type_full'' \<Longrightarrow> cellv (f r) c = cellv r c"
    by blast
  have d2: "rows d2 = map (coerce_row parse cs) ?keep"
    unfolding dropna_subset_rows[OF d] coerce_cols_rows[OF c] filter_map
    by (simp add: comp_def cellv_coerce_row cong: filter_cong)
  have cell: "cellv (f (coerce_row parse cs r)) k = to_numeric parse (cellv r k)"
    if "k \<in> set cs" for r k
    using that n by (subst fc) (auto simp: cellv_coerce_row)
  have rows: "rows out = map (\<lambda>r. f (coerce_row parse cs r)) ?keep"
    by (simp add: f d2 comp_def)
  have 1: "\<forall>r\<in>set (rows out). \<forall>k\<in>set cs. \<exists>x. cellv r k = Num x"
  proof (intro ballI)
    fix r k assume "r \<in> set (rows out)" and k: "k \<in> set cs"
    then obtain r0 where r0: "r0 \<in> set ?keep" and r: "r = f (coerce_row parse cs r0)"
      unfolding rows by auto
    from r0 k have "to_numeric parse (cellv r0 k) \<noteq> NA" by simp
    with to_numeric_cases[of parse "cellv r0 k"] show "\<exists>x. cellv r k = Num x"
      by (simp add: r cell[OF k])
  qed
  have 2: "map (\<lambda>r. map (cellv r) cs) (rows out) =
           map (\<lambda>r. map (\<lambda>c. to_numeric parse (cellv r c)) cs) ?keep"
    unfolding rows by (simp add: comp_def cell cong: map_cong)
  from 1 2 show ?thesis by blast
qed


lemmas ex_load_defs =
  ex_src_def ex_src_cols_def ex_src_a_def ex_src_b_def ex_src_c_def ex_out_a_def ex_out_c_def
  ex_out_cols_def ex_parse_def

lemma ex_load_final:
  "load_data_final ex_parse (Inr ex_src) = Inr \<lparr>columns = ex_out_cols, rows = [ex_out_a]\<rparr>"
  by (simp add: load_data_final_def numeric_cols_def assign_mapped_def dropna_subset_def
      add_full_names_def cellv_def to_numeric_def series_map_def mfr_map_def type_map_def
      ex_load_defs)

lemma ex_load_v1:
  "load_body_v1 ex_parse (Inr ex_src) = Inr \<lparr>columns = ex_out_cols, rows = [ex_out_a, ex_out_c]\<rparr>"
  by (simp add: load_body_v1_def assign_mapped_def dropna_subset_def
      add_full_names_def cellv_def to_numeric_def series_map_def mfr_map_def type_map_def
      ex_load_defs)

text \<open>
  What each loader guarantees.  In the final variant every row that survives has a
  number in each of the thirteen listed columns, and the survivors are exactly the
  source rows, in order, whose thirteen cells all coerce to a number.  In the first
  variant the same holds for the three columns it coerces and checks, \<^verbatim>\<open>carbo\<close>,
  \<^verbatim>\<open>sugars\<close> and \<^verbatim>\<open>potass\<close>, and for no other.
\<close>

lemma load_data_final_numeric:
  assumes "load_data_final parse (Inr src) = Inr out"
  shows "\<forall>r\<in>set (rows out). \<forall>c\<in>set numeric_cols. \<exists>x. cellv r c = Num x"
    and "map (\<lambda>r. map (cellv r) numeric_cols) (rows out) =
        map (\<lambda>r. map (\<lambda>c. to_numeric parse (cellv r c)) numeric_cols)
            (filter (\<lambda>r. \<forall>c\<in>set numeric_cols. to_numeric parse (cellv r c) \<noteq> NA) (rows src))"
proof -
  from assms obtain d1 d2 where "coerce_cols parse numeric_cols src = Inr d1"
    "dropna_subset numeric_cols d1 = Inr d2" "add_full_names d2 = Inr out"
    by (auto simp: load_data_final_def split: sum.splits)
  from load_pipeline[OF this]
  show "\<forall>r\<in>set (rows out). \<forall>c\<in>set numeric_cols. \<exists>x. cellv r c = Num x"
    and "map (\<lambda>r. map (cellv r) numeric_cols) (rows out) =
        map (\<lambda>r. map (\<lambda>c. to_numeric parse (cellv r c)) numeric_cols)
            (filter (\<lambda>r. \<forall>c\<in>set numeric_cols. to_numeric parse (cellv r c) \<noteq> NA) (rows src))"
    by (simp_all add: numeric_cols_def)
qed

lemma load_data_v1_numeric:
  assumes "load_body_v1 parse (Inr src) = Inr out"
  shows "snd (load_data_v1 parse (Inr src)) = out"
    and "\<forall>r\<in>set (rows out). \<forall>c\<in>set [''carbo'', ''sugars'', ''potass'']. \<exists>x. cellv r c = Num x"
    and "map (\<lambda>r. map (cellv r) [''carbo'', ''sugars'', ''potass'']) (rows out) =
        map (\<lambda>r. map (\<lambda>c. to_numeric parse (cellv r c)) [''carbo'', ''sugars'', ''potass''])
            (filter (\<lambda>r. \<forall>c\<in>set [''carbo'', ''sugars'', ''potass''].
                        to_numeric parse (cellv r c) \<noteq> NA) (rows src))"
proof -
  from assms show "snd (load_data_v1 parse (Inr src)) = out"
    by (simp add: load_data_v1_def)
  from assms obtain d1 d2 where "coerce_cols parse [''carbo'', ''sugars'', ''potass''] src = Inr d1"
    "dropna_subset [''carbo'', ''sugars'', ''potass''] d1 = Inr d2" "add_full_names d2 = Inr out"
    by (auto simp: load_body_v1_def split: sum.splits)
  from load_pipeline[OF this]
  show "\<forall>r\<in>set (rows out). \<forall>c\<in>set [''carbo'', ''sugars'', ''potass'']. \<exists>x. cellv r c = Num x"
    and "map (\<lambda>r. map (cellv r) [''carbo'', ''sugars'', ''potass'']) (rows out) =
        map (\<lambda>r. map (\<lambda>c. to_numeric parse (cellv r c)) [''carbo'', ''sugars'', ''potass''])
            (filter (\<lambda>r. \<forall>c\<in>set [''carbo'', ''sugars'', ''potass''].
                        to_numeric parse (cellv r c) \<noteq> NA) (rows src))"
    by simp_all
qed

text \<open>
  Claim C1.  The final variant does what the claim says (lemma
  \<open>load_data_final_numeric\<close>).  The first variant coerces and checks three of the
  thirteen columns only: of a source table of three cereals, the third without a
  calories value, its loader keeps the third row, calories missing, where the final
  variant's loader drops it.
\<close>

theorem loader_v1_keeps_missing_calories:
  "load_data_v1 ex_parse (Inr ex_src) =
     ([], \<lparr>columns = ex_out_cols, rows = [ex_out_a, ex_out_c]\<rparr>)
   \<and> cellv ex_out_c ''calories'' = NA
   \<and> load_data_final ex_parse (Inr ex_src) = Inr \<lparr>columns = ex_out_cols, rows = [ex_out_a]\<rparr>"
  by (simp add: load_data_v1_def ex_load_v1 ex_load_final ex_out_c_def cellv_def)

section \<open>Properties of the rating threshold view\<close>

lemma ge_cutoff_True: "ge_cutoff t v = Inr True \<longleftrightarrow> (\<exists>x. v = Num x \<and> real_of_int t \<le> x)"
  by (cases v) auto

lemma threshold_view_rows:
  assumes "threshold_view_final df t = Inr v"
  shows "rows v = map view_row (filter (\<lambda>r. ge_cutoff t (cellv r ''rating'') = Inr True) (rows df))"
    and "columns v = view_cols"
proof -
  from assms obtain m where m: "compare_all (ge_cutoff t) (map (\<lambda>r. cellv r ''rating'') (rows df)) = Inr m"
    and p: "project view_cols (select_rows df m) = Inr v"
    by (auto simp: threshold_view_final_def getcol_def split: sum.splits if_splits)
  from p have v: "v = \<lparr>columns = view_cols, rows = map view_row (rows (select_rows df m))\<rparr>"
    by (auto simp: project_def view_row_def split: list.splits)
  show "rows v = map view_row (filter (\<lambda>r. ge_cutoff t (cellv r ''rating'') = Inr True) (rows df))"
    by (simp add: v select_rows_def compare_all_filter[OF m])
  show "columns v = view_cols" by (simp add: v)
qed

lemma ex_view_analyzed:
  "threshold_view_final ex_analyzed 0 =
     Inr \<lparr>columns = view_cols, rows = [view_row ex_row_low, view_row ex_row_k]\<rparr>"
  by (simp add: threshold_view_final_def getcol_def ex_analyzed_def ex_cols_def ex_row_low_def
      ex_row_k_def cellv_def select_rows_def project_def view_cols_def view_row_def)

text \<open>
  Claim C2.  The final variant selects and projects but does not sort: on a table whose
  ratings are 36 and 93.5 in that order, the view at threshold 0 lists 36 before 93.5.
\<close>

theorem threshold_view_final_keeps_table_order:
  "threshold_view_final ex_analyzed 0 =
     Inr \<lparr>columns = view_cols, rows = [view_row ex_row_low, view_row ex_row_k]\<rparr>
   \<and> cellv (view_row ex_row_low) ''rating'' = Num 36
   \<and> cellv (view_row ex_row_k) ''rating'' = Num 93.5"
  by (simp add: ex_view_analyzed view_row_def view_cols_def cellv_def ex_row_low_def ex_row_k_def)

text \<open>
  Claim C3 (as amended).  On the table the final variant's analyzer returns, the view
  at threshold 0 holds every row, projected; the view at threshold 101 holds exactly
  the rows whose rating is at least 101, so it is empty when every rating is below 101.
\<close>

theorem threshold_view_boundaries:
  assumes "snd (analyze_data_final ev src t) = Inr df"
  shows "(threshold_view_final df 0 = Inr v0 \<longrightarrow> rows v0 = map view_row (rows df))
       \<and> (threshold_view_final df 101 = Inr v1 \<longrightarrow>
            rows v1 = map view_row (filter (\<lambda>r. \<exists>x. cellv r ''rating'' = Num x \<and> 101 \<le> x) (rows df))
            \<and> ((\<forall>r\<in>set (rows df). \<forall>x. cellv r ''rating'' = Num x \<longrightarrow> x < 101) \<longrightarrow> rows v1 = []))"
proof (intro conjI impI)
  assume v0: "threshold_view_final df 0 = Inr v0"
  have "ge_cutoff 0 (cellv r ''rating'') = Inr True" if "r \<in> set (rows df)" for r
  proof -
    from that assms obtain r0 where "positive_row r0" and r: "r = map (\<lambda>(k, v). (k, replace_cell v)) r0"
      using analyzed_rows[of ev src t df] by auto
    then have "gt0 (cellv r0 ''rating'') = Inr True" by (simp add: positive_row_def)
    from cleaned_cell_positive[OF this] show ?thesis
      by (auto simp: r ge_cutoff_True)
  qed
  then show "rows v0 = map view_row (rows df)"
    unfolding threshold_view_rows(1)[OF v0] by (simp cong: filter_cong)
next
  assume v1: "threshold_view_final df 101 = Inr v1"
  show *: "rows v1 = map view_row (filter (\<lambda>r. \<exists>x. cellv r ''rating'' = Num x \<and> 101 \<le> x) (rows df))"
    unfolding threshold_view_rows(1)[OF v1] by (simp add: ge_cutoff_True)
  assume "\<forall>r\<in>set (rows df). \<forall>x. cellv r ''rating'' = Num x \<longrightarrow> x < 101"
  then have "filter (\<lambda>r. \<exists>x. cellv r ''rating'' = Num x \<and> 101 \<le> x) (rows df) = []"
    by (fastforce simp: filter_empty_conv)
  with * show "rows v1 = []" by simp
qed

lemma ex_view_cleaned_0:
  "threshold_view_final ex_cleaned 0 = Inr \<lparr>columns = view_cols, rows = [view_row ex_row_k]\<rparr>"
  by (simp add: threshold_view_final_def getcol_def ex_cleaned_def ex_cols_def
      ex_row_k_def cellv_def select_rows_def project_def view_cols_def view_row_def)

lemma ex_view_cleaned_101:
  "threshold_view_final ex_cleaned 101 = Inr \<lparr>columns = view_cols, rows = []\<rparr>"
  by (simp add: threshold_view_final_def getcol_def ex_cleaned_def ex_cols_def
      ex_row_k_def cellv_def select_rows_def project_def view_cols_def view_row_def)

theorem threshold_view_boundaries_witness:
  "snd (analyze_data_final ex_env ex_loaded 85) = Inr ex_cleaned
   \<and> threshold_view_final ex_cleaned 0 = Inr \<lparr>columns = view_cols, rows = [view_row ex_row_k]\<rparr>
   \<and> threshold_view_final ex_cleaned 101 = Inr \<lparr>columns = view_cols, rows = []\<rparr>
   \<and> cellv ex_row_k ''rating'' = Num 93.5
   \<and> rows \<lparr>columns = view_cols, rows = [view_row ex_row_k]\<rparr> = map view_row (rows ex_cleaned)"
  using threshold_view_boundaries [OF ex_analyze_final, of
      "\<lparr>columns = view_cols, rows = [view_row ex_row_k]\<rparr>" "\<lparr>columns = view_cols, rows = []\<rparr>"]
    ex_analyze_final ex_view_cleaned_0 ex_view_cleaned_101
  by (simp add: ex_cleaned_def ex_row_k_def cellv_def)

lemma ex_off_scale_analyzed: "snd (analyze_data_final ex_env ex_off_scale 101) = Inr ex_off_scale"
  by (simp add: analyze_data_final_def clean_final_def mask_gt0_def replace_m1_def replace_cell_def
      steps_final_def ex_env_def unguarded_def ex_off_scale_def ex_row_high_def
      intro_final_def intro_total_def intro_avg_def intro_sugar_def column_types_final_def
      rating_filter_final_def threshold_view_final_def getcol_def ex_cols_def
      cellv_def select_rows_def project_def view_cols_def split: prod.splits)

text \<open>
  The claim as stated fails at threshold 101: nothing bounds a rating by 100, and a
  cereal rated 150 is in the view.
\<close>

theorem threshold_101_not_empty:
  "snd (analyze_data_final ex_env ex_off_scale 101) = Inr ex_off_scale
   \<and> threshold_view_final ex_off_scale 101 =
       Inr \<lparr>columns = view_cols, rows = [view_row ex_row_high]\<rparr>"
  by (simp add: ex_off_scale_analyzed)
     (simp add: threshold_view_final_def getcol_def ex_off_scale_def ex_cols_def
      ex_row_high_def cellv_def select_rows_def project_def view_cols_def view_row_def)

section \<open>Properties of the threshold signal\<close>

lemma str_nat_small:
  "str_nat 0 = ''0''" "str_nat 1 = ''1''" "str_nat (Suc 0) = ''1''" "str_nat 2 = ''2''"
  by (simp_all add: str_nat.simps)

lemma str_int_85: "str_int 85 = ''85''"
  by (simp add: str_int_def str_nat.simps)

lemma str_int_100: "str_int 100 = ''100''"
  by (simp add: str_int_def str_nat.simps)

text \<open>
  The signal of the step as a function of the matches.  In the final variant the
  count in the alert is the number of rows of the table whose rating is at least the
  threshold; one row gives "There is 1 cereal ...", any other number "There are N
  cereals ...".  In the first variant the signal is computed from the result of the
  query: the warning when it is empty, the table and "There are N cereals ..."
  otherwise.
\<close>

lemma rating_filter_final_signal:
  assumes "fails ev RatingFilter = None" and "threshold_view_final df t = Inr v"
  shows "rating_filter_final ev df t =
     ([Text ''## An Interactive Insight: Explore Cereals by Rating Threshold'',
       threshold_alert_final
         (length (filter (\<lambda>r. ge_cutoff t (cellv r ''rating'') = Inr True) (rows df))) t,
       Table (rated_title t) (Frame v),
       Separator], None)"
  using assms threshold_view_rows(1)[OF assms(2)]
  by (simp add: rating_filter_final_def unguarded_def)

lemma threshold_alert_final_cases:
  "threshold_alert_final 1 t =
     Alert Success (emoji_bowl @ '' There is 1 cereal rated above '' @ str_int t @ ''.'')"
  "n \<noteq> 1 \<Longrightarrow>
     threshold_alert_final n t =
       Alert Success (emoji_bowl @ '' There are '' @ str_nat n @ '' cereals rated above ''
                        @ str_int t @ ''.'')"
  by (simp_all add: threshold_alert_final_def str_nat.simps)

lemma rating_filter_v1_signal:
  assumes "fails ev RatingFilter = None" and "query ev (query_text t) = Some res"
  shows "rating_filter_v1 ev t =
     (Text (''## '' @ emoji_magnifier @ '' Explore Cereals by Rating Threshold'')
        # threshold_signal_v1 res t, None)"
  using assms by (simp add: rating_filter_v1_def unguarded_def)

lemma threshold_signal_v1_cases:
  "rows res = [] \<Longrightarrow>
     threshold_signal_v1 res t =
       [Alert Warning (emoji_confused @ '' No cereals found above that rating.'')]"
  "rows res \<noteq> [] \<Longrightarrow> columns res \<noteq> [] \<Longrightarrow>
     threshold_signal_v1 res t =
       [Table (rated_title t) (Frame res),
        Alert Success (emoji_plate @ '' There are '' @ str_nat (length (rows res))
                         @ '' cereals rated above '' @ str_int t @ ''.'')]"
  by (simp_all add: threshold_signal_v1_def df_empty_def)

lemma ex_view_cleaned_85: "threshold_view_final ex_cleaned 85 = Inr ex_view_one"
  by (simp add: threshold_view_final_def getcol_def ex_cleaned_def ex_cols_def ex_row_k_def
      cellv_def select_rows_def project_def view_cols_def view_row_def ex_view_one_def)

lemma ex_view_cleaned_100: "threshold_view_final ex_cleaned 100 = Inr ex_view_none"
  by (simp add: threshold_view_final_def getcol_def ex_cleaned_def ex_cols_def ex_row_k_def
      cellv_def select_rows_def project_def view_cols_def ex_view_none_def)

text \<open>
  Claim C8.  Each variant has one of the two branches of the claim and lacks the one
  the other has.  On the analyzed table of one cereal rated 93.5, the final variant
  answers the threshold 100, which nothing matches, with the success alert "There are
  0 cereals ..." and an empty table, where the first variant answers an empty result
  with the warning; and the first variant answers a result of one row with "There are
  1 cereals ...", where the final variant says "There is 1 cereal ...".
\<close>

theorem rating_filter_zero_and_one_signals:
  "rating_filter_final ex_env ex_cleaned 100 =
     ([Text ''## An Interactive Insight: Explore Cereals by Rating Threshold'',
       Alert Success (emoji_bowl @ '' There are 0 cereals rated above 100.''),
       Table ''Cereals Rated 100+'' (Frame ex_view_none),
       Separator], None)
   \<and> rating_filter_v1 ex_env_no_match 100 =
     ([Text (''## '' @ emoji_magnifier @ '' Explore Cereals by Rating Threshold''),
       Alert Warning (emoji_confused @ '' No cereals found above that rating.'')], None)
   \<and> rating_filter_v1 ex_env_query 85 =
     ([Text (''## '' @ emoji_magnifier @ '' Explore Cereals by Rating Threshold''),
       Table ''Cereals Rated 85+'' (Frame ex_view_one),
       Alert Success (emoji_plate @ '' There are 1 cereals rated above 85.'')], None)
   \<and> rating_filter_final ex_env ex_cleaned 85 =
     ([Text ''## An Interactive Insight: Explore Cereals by Rating Threshold'',
       Alert Success (emoji_bowl @ '' There is 1 cereal rated above 85.''),
       Table ''Cereals Rated 85+'' (Frame ex_view_one),
       Separator], None)"
  by (simp add: rating_filter_final_def rating_filter_v1_def unguarded_def ex_env_def
      ex_env_no_match_def ex_env_query_def ex_view_cleaned_85 ex_view_cleaned_100
      threshold_alert_final_def threshold_signal_v1_def df_empty_def rated_title_def
      str_nat_small str_int_85 str_int_100)
     (simp add: ex_view_one_def ex_view_none_def view_cols_def)

section \<open>Properties of the grouped means\<close>

lemma numbers_of_nums: "numbers_of vs = Inr xs \<Longrightarrow> xs = nums_in vs"
  by (induction vs arbitrary: xs rule: numbers_of.induct)
     (auto simp: nums_in_def split: sum.splits)

lemma mean_cells_mean_of: "mean_cells vs = Inr m \<Longrightarrow> m = mean_of (nums_in vs)"
  by (auto simp: mean_cells_def mean_of_def split: sum.splits dest: numbers_of_nums)

lemma sequence_err_all2:
  "sequence_err (map f ks) = Inr out \<Longrightarrow> list_all2 (\<lambda>k y. f k = Inr y) ks out"
proof (induction ks arbitrary: out)
  case Nil
  then show ?case by simp
next
  case (Cons k ks)
  then show ?case by (cases "f k") (auto split: sum.splits)
qed

lemma sequence_err_map:
  "sequence_err (map f ks) = Inr out \<Longrightarrow> (\<And>k y. f k = Inr y \<Longrightarrow> y = g k) \<Longrightarrow> out = map g ks"
  by (drule sequence_err_all2) (auto simp: list_all2_conv_all_nth intro!: nth_equalityI)

lemma sequence_err3:
  assumes "sequence_err [a, b, c] = Inr xs"
  obtains x y z where "a = Inr x" "b = Inr y" "c = Inr z" "xs = [x, y, z]"
  using assms by (cases a; cases b; cases c) auto

lemma column_means_numeric:
  assumes "column_means lib post col grps = Inr m" and "\<not> object_dtype lib col"
  shows "m = Some (map (\<lambda>g. post (mean_of (nums_in g))) grps)"
proof -
  from assms obtain ms where ms: "sequence_err (map mean_cells grps) = Inr ms"
    and m: "m = Some (map post ms)"
    by (auto simp: column_means_def split: sum.splits)
  from ms have "ms = map (\<lambda>g. mean_of (nums_in g)) grps"
    by (rule sequence_err_map) (rule mean_cells_mean_of)
  with m show ?thesis by simp
qed

lemma map_cell_at: "map (cell_at vs) [0..<length vs] = vs"
  by (rule nth_equalityI) (simp_all add: cell_at_def)

lemma map_cell_at_map: "map (\<lambda>i. cell_at (map f ks) i) [0..<length ks] = map f ks"
  using map_cell_at[of "map f ks"] by simp

lemma grouped_mean_columns:
  assumes "grouped_mean lib post typed ''type_full'' mean_cols df = Inr out"
  shows "column_of (rows out) ''type_full'' = group_keys (column_of (rows df) ''type_full'')"
    and "c \<in> set mean_cols \<Longrightarrow> \<not> object_dtype lib (column_of typed c) \<Longrightarrow>
         column_of (rows out) c =
           map (\<lambda>k. post (mean_of (nums_in (column_of (group_of df k) c))))
               (group_keys (column_of (rows df) ''type_full''))"
proof -
  let ?ks = "group_keys (column_of (rows df) ''type_full'')"
  let ?grps = "\<lambda>c. map (\<lambda>k. column_of (filter (\<lambda>r. cellv r ''type_full'' = k) (rows df)) c) ?ks"
  let ?cm = "\<lambda>c. column_means lib post (column_of typed c) (?grps c)"
  from assms obtain ms where
    ms: "sequence_err [?cm ''calories'', ?cm ''protein'', ?cm ''fat''] = Inr ms"
    and out: "out = frame_of_columns ''type_full'' ?ks (kept_columns mean_cols ms)"
    by (auto simp: grouped_mean_def mean_cols_def Let_def split: if_splits list.splits sum.splits)
  from ms obtain m1 m2 m3 where
    m: "?cm ''calories'' = Inr m1" "?cm ''protein'' = Inr m2" "?cm ''fat'' = Inr m3"
    and ms': "ms = [m1, m2, m3]"
    by (rule sequence_err3)
  show "column_of (rows out) ''type_full'' = ?ks"
    by (simp add: out frame_of_columns_def column_of_def cellv_def comp_def map_cell_at)
  assume c: "c \<in> set mean_cols" and num: "\<not> object_dtype lib (column_of typed c)"
  let ?v = "\<lambda>c. map (\<lambda>g. post (mean_of (nums_in g))) (?grps c)"
  from c num m have "(c = ''calories'' \<and> m1 = Some (?v c)) \<or> (c = ''protein'' \<and> m2 = Some (?v c))
      \<or> (c = ''fat'' \<and> m3 = Some (?v c))"
    by (auto simp: mean_cols_def dest: column_means_numeric)
  then have "column_of (rows out) c = map (\<lambda>i. cell_at (?v c) i) [0..<length ?ks]"
    by (cases m1; cases m2; cases m3)
       (auto simp: out ms' frame_of_columns_def kept_columns_def mean_cols_def column_of_def cellv_def comp_def)
  also have "\<dots> = ?v c"
    using map_cell_at[of "?v c"] by simp
  finally show "column_of (rows out) c =
           map (\<lambda>k. post (mean_of (nums_in (column_of (group_of df k) c)))) ?ks"
    by (simp add: group_of_def comp_def)
qed


text \<open>
  What both variants compute for a numeric column: one row per \<^verbatim>\<open>type_full\<close> value that
  occurs, in key order, holding the mean of the numbers of the column in that group;
  the final variant rounds it, over all rows of the table, and the first variant
  leaves it as it is, over the rows without a missing cell.
\<close>

lemma avg_df_final_columns:
  assumes "avg_df_final lib df = Inr out"
  shows "column_of (rows out) ''type_full'' = group_keys (column_of (rows df) ''type_full'')"
    and "c \<in> set mean_cols \<Longrightarrow> \<not> object_dtype lib (column_of (rows df) c) \<Longrightarrow>
         column_of (rows out) c =
           map (\<lambda>k. round_cell lib (mean_of (nums_in (column_of (group_of df k) c))))
               (group_keys (column_of (rows df) ''type_full''))"
  using grouped_mean_columns[OF assms[unfolded avg_df_final_def]] by simp_all

lemma avg_df_v1_columns:
  assumes "avg_df_v1 lib df = Inr out"
  shows "column_of (rows out) ''type_full'' =
           group_keys (column_of (rows (dropna df)) ''type_full'')"
    and "c \<in> set mean_cols \<Longrightarrow> \<not> object_dtype lib (column_of (rows df) c) \<Longrightarrow>
         column_of (rows out) c =
           map (\<lambda>k. mean_of (nums_in (column_of (group_of (dropna df) k) c)))
               (group_keys (column_of (rows (dropna df)) ''type_full''))"
  using grouped_mean_columns[OF assms[unfolded avg_df_v1_def]] by simp_all

lemmas ex_mean_defs =
  grouped_mean_def ex_viz_cols_def cereal_def mean_cols_def column_of_def cellv_def
  group_keys_def column_means_def ex_lib_def holds_non_number_def mean_cells_def
  kept_columns_def frame_of_columns_def cell_at_def round_cell_def means_cols_def means_row_def

lemma ex_avg_final: "avg_df_final ex_lib ex_types =
   Inr \<lparr>columns = means_cols, rows = [means_row ''Cold'' 110 3 1, means_row ''Hot'' 90 3 0]\<rparr>"
  by (simp add: avg_df_final_def ex_types_def ex_mean_defs)

lemma ex_avg_v1: "avg_df_v1 ex_lib ex_types =
   Inr \<lparr>columns = means_cols, rows = [means_row ''Cold'' 110 3 1, means_row ''Hot'' 90 3 0]\<rparr>"
  by (simp add: avg_df_v1_def dropna_def ex_types_def ex_mean_defs)

lemma ex_potass_final:
  "avg_df_final ex_lib ex_potass =
     Inr \<lparr>columns = means_cols, rows = [means_row ''Cold'' 110 3 1]\<rparr>"
  by (simp add: avg_df_final_def ex_potass_def ex_mean_defs)

lemma ex_potass_v1:
  "avg_df_v1 ex_lib ex_potass =
     Inr \<lparr>columns = means_cols, rows = [means_row ''Cold'' 120 2 1]\<rparr>"
  by (simp add: avg_df_v1_def dropna_def ex_potass_def ex_mean_defs)

lemma ex_eighths_v1:
  "avg_df_v1 ex_lib ex_eighths =
     Inr \<lparr>columns = means_cols, rows = [means_row ''Cold'' (801 / 8) 2 1]\<rparr>"
  by (simp add: avg_df_v1_def dropna_def ex_eighths_def ex_mean_defs)

lemma ex_potass_analyzed_final:
  "snd (analyze_data_final ex_env_plain ex_potass_src 50) = Inr ex_potass"
  by (simp add: analyze_data_final_def clean_final_def mask_gt0_def getcol_def ex_potass_src_def
      ex_potass_def ex_viz_cols_def cereal_def cellv_def select_rows_def replace_m1_def
      replace_cell_def steps_final_def ex_env_plain_def unguarded_def
      intro_final_def intro_total_def intro_avg_def intro_sugar_def column_types_final_def
      rating_filter_final_def threshold_view_final_def project_def view_cols_def
      split: prod.splits)

lemma ex_potass_analyzed_v1:
  "snd (analyze_data_v1 ex_env_query ex_potass_src 50) = Inr ex_potass"
  by (simp add: analyze_data_v1_def clean_v1_def mask_gt0_def getcol_def ex_potass_src_def
      ex_potass_def ex_viz_cols_def cereal_def cellv_def select_rows_def replace_m1_def
      replace_cell_def steps_v1_def ex_env_query_def unguarded_def column_types_v1_def
      rating_filter_v1_def split: prod.splits)

lemma ex_eighths_analyzed_v1:
  "snd (analyze_data_v1 ex_env_query ex_eighths 50) = Inr ex_eighths"
  by (simp add: analyze_data_v1_def clean_v1_def mask_gt0_def getcol_def
      ex_eighths_def ex_viz_cols_def cereal_def cellv_def select_rows_def replace_m1_def
      replace_cell_def steps_v1_def ex_env_query_def unguarded_def column_types_v1_def
      rating_filter_v1_def split: prod.splits)

text \<open>
  Claim C7.  Both variants group by \<^verbatim>\<open>type_full\<close> and take the mean of calories, protein
  and fat (lemmas \<open>avg_df_final_columns\<close>, \<open>avg_df_v1_columns\<close>), and on cold cereals
  with 100 and 120 calories and a hot one with 90 both give 110 and 90 (lemmas
  \<open>ex_avg_final\<close>, \<open>ex_avg_v1\<close>).  Each lacks what the other does.  The first variant
  does not round: on eight cold cereals, seven with 100 calories and one with 101, its
  mean is 801/8 = 100.125.  The final variant does not leave out the rows with a
  missing value: on two cold cereals with 100 and 120 calories, the first without a
  \<^verbatim>\<open>potass\<close>, its mean is 110, where the first variant gives 120.  Both tables are
  what the analyzer returns.
\<close>

theorem grouped_means_unrounded_or_over_all_rows:
  "snd (analyze_data_v1 ex_env_query ex_eighths 50) = Inr ex_eighths
   \<and> avg_df_v1 ex_lib ex_eighths =
       Inr \<lparr>columns = means_cols, rows = [means_row ''Cold'' (801 / 8) 2 1]\<rparr>
   \<and> cellv (means_row ''Cold'' (801 / 8) 2 1) ''calories'' = Num 100.125
   \<and> snd (analyze_data_final ex_env_plain ex_potass_src 50) = Inr ex_potass
   \<and> avg_df_final ex_lib ex_potass =
       Inr \<lparr>columns = means_cols, rows = [means_row ''Cold'' 110 3 1]\<rparr>
   \<and> snd (analyze_data_v1 ex_env_query ex_potass_src 50) = Inr ex_potass
   \<and> avg_df_v1 ex_lib ex_potass =
       Inr \<lparr>columns = means_cols, rows = [means_row ''Cold'' 120 2 1]\<rparr>"
  by (simp add: ex_eighths_analyzed_v1 ex_eighths_v1 ex_potass_analyzed_final ex_potass_final
      ex_potass_analyzed_v1 ex_potass_v1) (simp add: means_row_def cellv_def)

lemma set_insert_key: "set (insert_key k ks) = insert k (set ks)"
  by (induction ks) auto

lemma set_group_keys: "set (group_keys vs) = set vs - {NA}"
proof -
  have "set (foldr insert_key xs []) = set xs" for xs
    by (induction xs) (simp_all add: set_insert_key)
  then show ?thesis by (auto simp: group_keys_def)
qed

section \<open>Properties of the categorical value counts\<close>

lemma sort_desc_sorted: "sorted (rev (map snd (sort_desc xs)))"
  by (simp add: sort_desc_def rev_map)

lemma set_sort_desc: "set (sort_desc xs) = set xs"
  by (simp add: sort_desc_def)

lemma distinct_map_insort:
  "distinct (map f (insort_key g x xs)) = (f x \<notin> f ` set xs \<and> distinct (map f xs))"
  by (induction xs) (auto simp: set_insort_key)

lemma distinct_map_sort_key: "distinct (map f (sort_key g xs)) = distinct (map f xs)"
  by (induction xs) (auto simp: distinct_map_insort)

lemma distinct_sort_desc: "distinct (map fst (sort_desc xs)) = distinct (map fst xs)"
  by (simp add: sort_desc_def rev_map[symmetric] distinct_map_sort_key)

lemma count_list_filter: "P k \<Longrightarrow> count_list (filter P vs) k = count_list vs k"
  by (induction vs) auto

lemma value_counts_sorted: "sorted (rev (map snd (value_counts vs)))"
  by (simp add: value_counts_def Let_def sort_desc_sorted)

lemma value_counts_entries:
  "(k, n) \<in> set (value_counts vs) \<longleftrightarrow> k \<in> set vs \<and> k \<noteq> NA \<and> n = count_list vs k"
  by (auto simp: value_counts_def Let_def set_sort_desc distinct_values_def count_list_filter)

lemma value_counts_distinct: "distinct (map fst (value_counts vs))"
  by (simp add: value_counts_def Let_def distinct_sort_desc distinct_values_def comp_def)

lemma value_count_tables_final_top10:
  "Table ti (Counts c xs) \<in> set (value_count_tables_final ev df) \<Longrightarrow>
   length xs \<le> 10 \<and> xs = take 10 (value_counts (map (\<lambda>r. cellv r c) (rows df)))
   \<and> c \<in> set (categorical_cols ev df)"
  by (auto simp: value_count_tables_final_def)

lemma ex_value_counts:
  "value_counts (map (\<lambda>r. cellv r ''mfr'') (rows ex_codes)) = ex_counts"
  by (simp add: value_counts_def distinct_values_def sort_desc_def ex_codes_def ex_counts_def cellv_def)

lemma ex_categorical: "categorical_cols ex_env_object ex_codes = [''mfr'']"
  by (simp add: categorical_cols_def ex_env_object_def ex_codes_def)

text \<open>
  Claim C6.  The counts are per value, ordered by descending frequency (lemmas
  \<open>value_counts_entries\<close>, \<open>value_counts_sorted\<close>), and the final variant shows at most ten
  (lemma \<open>value_count_tables_final_top10\<close>).  The first variant does not truncate: for
  a column with eleven distinct values its table, titled "Top 10 'mfr' Values", has
  eleven entries, where the final variant shows ten.
\<close>

theorem value_count_tables_v1_not_truncated:
  "value_count_tables_v1 ex_env_object ex_codes =
     [Table (counts_title ''mfr'') (Counts ''mfr'' ex_counts)]
   \<and> length ex_counts = 11
   \<and> value_count_tables_final ex_env_object ex_codes =
     [Table (counts_title ''mfr'') (Counts ''mfr'' (take 10 ex_counts))]"
  by (simp add: value_count_tables_v1_def value_count_tables_final_def ex_categorical
      ex_value_counts) (simp add: ex_counts_def)

section \<open>Failures inside the analyzer\<close>

lemma run_steps_raises:
  "(evs, Some e) \<in> set steps \<Longrightarrow> \<exists>e'. snd (run_steps steps) = Some e'"
proof (induction steps rule: run_steps.induct)
  case 1
  then show ?case by simp
next
  case (2 evs' e' rest)
  then show ?case by simp
next
  case (3 evs' rest)
  then show ?case by auto
qed

lemma unguarded_raises:
  "fails ev s = Some e \<Longrightarrow> unguarded ev s heading body = (heading, Some e)"
  by (simp add: unguarded_def)

lemma analyze_v1_raises:
  assumes "clean_v1 src = Inr df" and "(evs, Some e) \<in> set (steps_v1 ev df t)"
  shows "\<exists>e'. snd (analyze_data_v1 ev src t) = Inl e'"
  using run_steps_raises[OF assms(2)] assms(1)
  by (auto simp: analyze_data_v1_def split: prod.splits option.splits)

lemma analyze_final_raises:
  assumes "clean_final src = Inr df" and "(evs, Some e) \<in> set (steps_final ev df t)"
  shows "\<exists>e'. snd (analyze_data_final ev src t) = Inl e'"
  using run_steps_raises[OF assms(2)] assms(1)
  by (auto simp: analyze_data_final_def split: prod.splits option.splits)

lemma steps_v1_unguarded:
  assumes "fails ev s = Some e" and "s \<in> {Preview, Summary, ValueCounts, MissingValues, RatingFilter}"
  shows "\<exists>evs. (evs, Some e) \<in> set (steps_v1 ev df t)"
  using assms by (auto simp: steps_v1_def rating_filter_v1_def unguarded_raises)

lemma steps_final_unguarded:
  assumes "fails ev s = Some e"
  shows "\<exists>evs. (evs, Some e) \<in> set (steps_final ev df t)"
  using assms
  by (cases s)
     (auto simp: steps_final_def rating_filter_final_def intro_final_def column_types_final_def
        unguarded_raises)












end
